theory Spec2Isabelle
  imports Complex_Main "HOL-Library.Sublist"
begin

section \<open>Python values\<close>

text \<open>
  A Python \<^verbatim>\<open>str\<close> is a sequence of Unicode code points, so \<^verbatim>\<open>text[:50]\<close> counts
  code points; it is modelled as a list of naturals. \<^verbatim>\<open>bytes\<close> is a list of octets.
  ASCII literals of the source are written with \<open>ascii\<close>; the Chinese literals are
  written out as code points.
\<close>

type_synonym pystr = "nat list"
type_synonym bytes = "nat list"

definition ascii :: "string \<Rightarrow> pystr" where
  "ascii cs = map of_char cs"

text \<open>The characters \<^verbatim>\<open>str.strip()\<close> removes: those for which \<^verbatim>\<open>str.isspace()\<close> holds.\<close>

definition isspace :: "nat \<Rightarrow> bool" where
  "isspace c = (c \<in> set [9, 10, 11, 12, 13, 28, 29, 30, 31, 32, 133, 160, 5760,
     8192, 8193, 8194, 8195, 8196, 8197, 8198, 8199, 8200, 8201, 8202,
     8232, 8233, 8239, 8287, 12288])"

definition strip :: "pystr \<Rightarrow> pystr" where
  "strip t = rev (dropWhile isspace (rev (dropWhile isspace t)))"

text \<open>\<^verbatim>\<open>str(n)\<close> for a non-negative integer, as an f-string formats it.\<close>

fun str_nat :: "nat \<Rightarrow> pystr" where
  "str_nat n = (if n < 10 then [48 + n] else str_nat (n div 10) @ [48 + n mod 10])"

declare str_nat.simps [simp del]

text \<open>\<^verbatim>\<open>sep.join(parts)\<close>.\<close>

fun join :: "pystr \<Rightarrow> pystr list \<Rightarrow> pystr" where
  "join sep [] = []"
| "join sep [x] = x"
| "join sep (x # y # ys) = x @ sep @ join sep (y # ys)"

text \<open>
  \<^verbatim>\<open>xs[:m]\<close> for a Python integer \<open>m\<close>: a negative bound counts from the end.
\<close>

definition slice_to :: "'a list \<Rightarrow> int \<Rightarrow> 'a list" where
  "slice_to xs m = (if 0 \<le> m then take (nat m) xs else take (length xs - nat (- m)) xs)"

text \<open>
  Decoded JSON values (the results of \<^verbatim>\<open>response.json()\<close>). Numbers are integers;
  an object is the association list of its dictionary.
\<close>

datatype json =
    JNull
  | JBool bool
  | JNum int
  | JStr pystr
  | JArr "json list"
  | JObj "(pystr \<times> json) list"

text \<open>Python truthiness, as \<^verbatim>\<open>if not asset_id\<close> tests it.\<close>

fun truthy :: "json \<Rightarrow> bool" where
  "truthy JNull = False"
| "truthy (JBool b) = b"
| "truthy (JNum n) = (n \<noteq> 0)"
| "truthy (JStr s) = (s \<noteq> [])"
| "truthy (JArr xs) = (xs \<noteq> [])"
| "truthy (JObj kvs) = (kvs \<noteq> [])"

section \<open>Exceptions\<close>

text \<open>
  Every \<^verbatim>\<open>raise\<close> of the source is a constructor carrying the data its message is
  formatted from. \<open>RequestException\<close> stands for \<^verbatim>\<open>requests.RequestException\<close> and
  its subclasses (the only class the retry wrapper catches), \<open>LibraryError\<close> for any
  other \<^verbatim>\<open>Exception\<close> an external library raises. Interrupts outside the
  \<^verbatim>\<open>Exception\<close> hierarchy are not modelled.
\<close>

datatype exn =
    RequestException pystr
  | LibraryError pystr
  | KeyError pystr
  | TypeError
  | AttributeError
  | IndexError
  | RetriesExhausted
  | NoAssetId pystr
  | EmptySlideImage nat
  | NoVideoId
  | VideoGenerationFailed json
  | PptxNotFound pystr
  | NoSlides
  | NoSlidesConverted

fun is_request_exception :: "exn \<Rightarrow> bool" where
  "is_request_exception (RequestException m) = True"
| "is_request_exception e = False"

text \<open>\<^verbatim>\<open>v[key]\<close> and \<^verbatim>\<open>v.get(key, default)\<close> on a decoded JSON value.\<close>

fun getitem :: "json \<Rightarrow> pystr \<Rightarrow> exn + json" where
  "getitem (JObj kvs) key = (case map_of kvs key of Some v \<Rightarrow> Inr v | None \<Rightarrow> Inl (KeyError key))"
| "getitem v key = Inl TypeError"

fun get_default :: "json \<Rightarrow> pystr \<Rightarrow> json \<Rightarrow> exn + json" where
  "get_default (JObj kvs) key d = (case map_of kvs key of Some v \<Rightarrow> Inr v | None \<Rightarrow> Inr d)"
| "get_default v key d = Inl AttributeError"

text \<open>Sequencing of fallible pure steps: the first exception wins.\<close>

definition then_e :: "exn + 'a \<Rightarrow> ('a \<Rightarrow> exn + 'b) \<Rightarrow> exn + 'b" where
  "then_e r f = (case r of Inl e \<Rightarrow> Inl e | Inr x \<Rightarrow> f x)"

section \<open>Requests, scenes and the trace of effects\<close>

datatype character =
  TalkingPhoto (talking_photo_id: "pystr option") (scale: rat) (offset: "rat \<times> rat")

datatype voice = TextVoice (input_text: pystr) (voice_id: "pystr option")

datatype background = ColorBackground pystr | ImageBackground json

record scene =
  character :: character
  voice :: voice
  background :: background

record payload =
  video_inputs :: "scene list"
  dimension :: "nat \<times> nat"
  title :: pystr

datatype url = Url pystr | VideoStatusUrl json

datatype body = NoBody | Data bytes | JsonBody payload

text \<open>The keyword arguments the pipeline passes to \<^verbatim>\<open>requests\<close>.\<close>

record kwargs =
  headers :: "(pystr \<times> pystr option) list"
  body :: body

record request =
  http_method :: pystr
  url :: url
  timeout :: nat
  kwargs :: kwargs

text \<open>
  A response that passed \<^verbatim>\<open>raise_for_status()\<close>: its raw content and what
  \<^verbatim>\<open>response.json()\<close> gives (decoding may raise).
\<close>

record response =
  content :: bytes
  json_body :: "exn + json"

record chat_request =
  model :: pystr
  messages :: "(pystr \<times> pystr) list"
  temperature :: rat
  max_tokens :: nat

text \<open>A completion is the list of its choices' message contents (a content may be \<^verbatim>\<open>None\<close>).\<close>

type_synonym completion = "pystr option list"

datatype level = INFO | WARNING | ERROR

text \<open>One constructor per logging call of the source, with the values its message shows.\<close>

datatype logmsg =
    GetFileFailed pystr exn
  | RequestFailed pystr url nat exn
  | UploadSucceeded pystr json
  | ConvertingSlides nat
  | SlideFailed nat exn
  | GeneratingNotes nat
  | NoteFailed nat exn
  | VideoCreated json
  | WaitingForVideo json nat
  | VideoStatusPending json
  | ProcessingPptx pystr

datatype event =
    Request request
  | Sleep nat
  | Log level logmsg
  | Download bytes nat
  | Remove pystr
  | ChatCompletion chat_request

section \<open>The external services\<close>

text \<open>
  The collaborators of the pipeline are parameters. The remote ones answer by call
  number (how many calls of that service came before), so a service may fail on one
  call and succeed on the next:
  \<^item> \<open>transport\<close>: \<^verbatim>\<open>requests.request\<close> or \<^verbatim>\<open>requests.get\<close> followed by
    \<^verbatim>\<open>raise_for_status()\<close>; \<open>Inl\<close> is the exception either of them raises;
  \<^item> \<open>download_slide_online\<close>: the Aspose call, returning the temporary file's path;
  \<^item> \<open>chat_completions_create\<close>: the OpenAI call;
  \<^item> \<open>cloudinary_url\<close>, \<open>parse_presentation\<close> (a slide is the list of its shapes, a
    shape its text if it has one), \<open>guess_type\<close>, and the file system calls
    \<open>read_file\<close> (\<^verbatim>\<open>open(path, "rb").read()\<close>), \<open>path_exists\<close>, \<open>os_remove\<close>
    (\<open>Some e\<close> when removal raises).
\<close>

type_synonym slide = "pystr option list"

record env =
  cloudinary_url :: "pystr \<Rightarrow> exn + pystr"
  transport :: "nat \<Rightarrow> request \<Rightarrow> exn + response"
  parse_presentation :: "bytes \<Rightarrow> exn + slide list"
  download_slide_online :: "nat \<Rightarrow> bytes \<Rightarrow> nat \<Rightarrow> exn + pystr"
  read_file :: "pystr \<Rightarrow> exn + bytes"
  path_exists :: "pystr \<Rightarrow> bool"
  os_remove :: "pystr \<Rightarrow> exn option"
  guess_type :: "pystr \<Rightarrow> pystr option"
  chat_completions_create :: "nat \<Rightarrow> chat_request \<Rightarrow> exn + completion"

section \<open>The converter object\<close>

text \<open>
  The fields of \<^verbatim>\<open>PPTXToHeyGenVideo\<close> that the methods read but never assign are the
  configuration; \<^verbatim>\<open>self.slide_asset_ids\<close>, which \<^verbatim>\<open>_pptx_to_heygen_images\<close> appends
  to, is in the state, next to the trace of effects performed so far.
\<close>

record config =
  heygen_key :: "pystr option"
  avatar_id :: "pystr option"
  config_voice_id :: "pystr option"
  video_size :: "nat \<times> nat"
  retry_times :: nat
  poll_interval :: nat

record state =
  slide_asset_ids :: "json list"
  trace :: "event list"

text \<open>The values \<^verbatim>\<open>__init__\<close> assigns (lines 111 to 114).\<close>

definition default_config :: "pystr option \<Rightarrow> pystr option \<Rightarrow> pystr option \<Rightarrow> config" where
  "default_config key avatar voice_ident =
     \<lparr>heygen_key = key, avatar_id = avatar, config_voice_id = voice_ident,
      video_size = (1280, 720), retry_times = 3, poll_interval = 10\<rparr>"

definition initial_state :: state where
  "initial_state = \<lparr>slide_asset_ids = [], trace = []\<rparr>"

definition emit :: "event \<Rightarrow> state \<Rightarrow> state" where
  "emit ev s = s\<lparr>trace := trace s @ [ev]\<rparr>"

definition logging :: "level \<Rightarrow> logmsg \<Rightarrow> state \<Rightarrow> state" where
  "logging lvl msg s = emit (Log lvl msg) s"

definition sleep :: "nat \<Rightarrow> state \<Rightarrow> state" where
  "sleep secs s = emit (Sleep secs) s"

fun is_request :: "event \<Rightarrow> bool" where
  "is_request (Request r) = True"
| "is_request ev = False"

fun is_download :: "event \<Rightarrow> bool" where
  "is_download (Download d i) = True"
| "is_download ev = False"

fun is_chat :: "event \<Rightarrow> bool" where
  "is_chat (ChatCompletion r) = True"
| "is_chat ev = False"

definition calls :: "(event \<Rightarrow> bool) \<Rightarrow> state \<Rightarrow> nat" where
  "calls kind s = length (filter kind (trace s))"

text \<open>One HTTP call: the transport answers for this call number; the call is traced.\<close>

definition do_request :: "env \<Rightarrow> request \<Rightarrow> state \<Rightarrow> (exn + response) \<times> state" where
  "do_request env req s = (transport env (calls is_request s) req, emit (Request req) s)"

section \<open>\<^verbatim>\<open>CloudinaryStorage.get_file_bytes\<close> (lines 55 to 64)\<close>

definition get_file_bytes :: "env \<Rightarrow> pystr \<Rightarrow> state \<Rightarrow> bytes option \<times> state" where
  "get_file_bytes env public_id s =
     (case cloudinary_url env public_id of
        Inl e \<Rightarrow> (None, logging ERROR (GetFileFailed public_id e) s)
      | Inr file_url \<Rightarrow>
          (case do_request env
                  \<lparr>http_method = ascii ''get'', url = Url file_url, timeout = 60,
                   kwargs = \<lparr>headers = [], body = NoBody\<rparr>\<rparr> s of
             (Inl e, s1) \<Rightarrow> (None, logging ERROR (GetFileFailed public_id e) s1)
           | (Inr response, s1) \<Rightarrow> (Some (content response), s1)))"

section \<open>\<^verbatim>\<open>_request_with_retry\<close> (lines 130 to 142)\<close>

text \<open>
  The \<^verbatim>\<open>for attempt in range(self.retry_times)\<close> loop, over the attempts still to
  make. An exception that is not a \<^verbatim>\<open>RequestException\<close> is not caught. Falling out
  of the loop (only when \<^verbatim>\<open>retry_times\<close> is 0) raises the final \<^verbatim>\<open>RuntimeError\<close>.
\<close>

fun request_attempts ::
  "env \<Rightarrow> nat \<Rightarrow> request \<Rightarrow> nat list \<Rightarrow> state \<Rightarrow> (exn + response) \<times> state" where
  "request_attempts env n req [] s = (Inl RetriesExhausted, s)"
| "request_attempts env n req (attempt # rest) s =
     (case do_request env req s of
        (Inr response, s1) \<Rightarrow> (Inr response, s1)
      | (Inl e, s1) \<Rightarrow>
          if is_request_exception e then
            let s2 = logging WARNING (RequestFailed (http_method req) (url req) (attempt + 1) e) s1 in
            if attempt = n - 1 then (Inl e, s2)
            else request_attempts env n req rest (sleep (2 ^ attempt) s2)
          else (Inl e, s1))"

definition request_with_retry ::
  "env \<Rightarrow> config \<Rightarrow> pystr \<Rightarrow> url \<Rightarrow> kwargs \<Rightarrow> state \<Rightarrow> (exn + response) \<times> state" where
  "request_with_retry env cfg meth u kw s =
     request_attempts env (retry_times cfg)
       \<lparr>http_method = meth, url = u, timeout = 90, kwargs = kw\<rparr> [0..<retry_times cfg] s"

section \<open>\<^verbatim>\<open>_upload_to_heygen\<close> (lines 144 to 162)\<close>

definition upload_to_heygen ::
  "env \<Rightarrow> config \<Rightarrow> bytes \<Rightarrow> pystr \<Rightarrow> state \<Rightarrow> (exn + json) \<times> state" where
  "upload_to_heygen env cfg file_bytes file_name s =
     (let mime_type = (case guess_type env file_name of
                         Some m \<Rightarrow> if m \<noteq> [] then m else ascii ''image/png''
                       | None \<Rightarrow> ascii ''image/png'');
          upload_headers = [(ascii ''X-Api-Key'', heygen_key cfg),
                            (ascii ''Content-Type'', Some mime_type)]
      in case request_with_retry env cfg (ascii ''POST'')
                (Url (ascii ''https://upload.heygen.com/v1/asset''))
                \<lparr>headers = upload_headers, body = Data file_bytes\<rparr> s of
           (Inl e, s1) \<Rightarrow> (Inl e, s1)
         | (Inr response, s1) \<Rightarrow>
             (case then_e (json_body response) (\<lambda>j.
                   then_e (getitem j (ascii ''data'')) (\<lambda>d.
                   get_default d (ascii ''id'') JNull)) of
                Inl e \<Rightarrow> (Inl e, s1)
              | Inr asset_id \<Rightarrow>
                  if \<not> truthy asset_id then (Inl (NoAssetId file_name), s1)
                  else (Inr asset_id, logging INFO (UploadSucceeded file_name asset_id) s1)))"

section \<open>\<^verbatim>\<open>_pptx_to_heygen_images\<close> (lines 164 to 189)\<close>

definition slide_file_name :: "nat \<Rightarrow> pystr" where
  "slide_file_name slide_idx = ascii ''slide_'' @ str_nat slide_idx @ ascii ''.png''"

text \<open>
  The body of the \<^verbatim>\<open>try\<close> for one slide (lines 170 to 183). Besides the new state it
  gives the value of \<^verbatim>\<open>temp_file_path\<close> when the body is left and how it is left:
  \<open>Inl e\<close> by raising \<open>e\<close>, \<open>Inr asset_id\<close> after appending
  \<open>asset_id\<close> to \<^verbatim>\<open>self.slide_asset_ids\<close>.
\<close>

definition slide_try ::
  "env \<Rightarrow> config \<Rightarrow> bytes \<Rightarrow> nat \<Rightarrow> state \<Rightarrow> (pystr option \<times> (exn + json)) \<times> state" where
  "slide_try env cfg pptx_bytes slide_idx s =
     (let s0 = emit (Download pptx_bytes slide_idx) s in
      case download_slide_online env (calls is_download s) pptx_bytes slide_idx of
        Inl e \<Rightarrow> ((None, Inl e), s0)
      | Inr temp_file_path \<Rightarrow>
          (case read_file env temp_file_path of
             Inl e \<Rightarrow> ((Some temp_file_path, Inl e), s0)
           | Inr slide_bytes \<Rightarrow>
               if slide_bytes = [] then ((Some temp_file_path, Inl (EmptySlideImage slide_idx)), s0)
               else (case upload_to_heygen env cfg slide_bytes (slide_file_name slide_idx) s0 of
                       (Inl e, s1) \<Rightarrow> ((Some temp_file_path, Inl e), s1)
                     | (Inr asset_id, s1) \<Rightarrow>
                         ((Some temp_file_path, Inr asset_id),
                          s1\<lparr>slide_asset_ids := slide_asset_ids s1 @ [asset_id]\<rparr>))))"

text \<open>
  The \<^verbatim>\<open>finally\<close> block (lines 186 to 189). An exception of \<^verbatim>\<open>os.remove\<close> is raised
  outside the \<^verbatim>\<open>try\<close>, so it leaves the function.
\<close>

definition cleanup :: "env \<Rightarrow> pystr option \<Rightarrow> state \<Rightarrow> (exn + unit) \<times> state" where
  "cleanup env temp_file_path s =
     (case temp_file_path of
        None \<Rightarrow> (Inr (), s)
      | Some p \<Rightarrow>
          if p \<noteq> [] \<and> path_exists env p then
            (case os_remove env p of
               None \<Rightarrow> (Inr (), emit (Remove p) s)
             | Some e \<Rightarrow> (Inl e, emit (Remove p) s))
          else (Inr (), s))"

text \<open>One iteration: \<^verbatim>\<open>try\<close>, \<^verbatim>\<open>except Exception\<close> (log and go on), \<^verbatim>\<open>finally\<close>.\<close>

definition slide_iteration ::
  "env \<Rightarrow> config \<Rightarrow> bytes \<Rightarrow> nat \<Rightarrow> state \<Rightarrow> (exn + unit) \<times> state" where
  "slide_iteration env cfg pptx_bytes slide_idx s =
     (case slide_try env cfg pptx_bytes slide_idx s of
        ((temp_file_path, Inl e), s1) \<Rightarrow>
          cleanup env temp_file_path (logging ERROR (SlideFailed slide_idx e) s1)
      | ((temp_file_path, Inr asset_id), s1) \<Rightarrow> cleanup env temp_file_path s1)"

fun slides_loop ::
  "env \<Rightarrow> config \<Rightarrow> bytes \<Rightarrow> nat list \<Rightarrow> state \<Rightarrow> (exn + unit) \<times> state" where
  "slides_loop env cfg pptx_bytes [] s = (Inr (), s)"
| "slides_loop env cfg pptx_bytes (slide_idx # rest) s =
     (case slide_iteration env cfg pptx_bytes slide_idx s of
        (Inl e, s1) \<Rightarrow> (Inl e, s1)
      | (Inr u, s1) \<Rightarrow> slides_loop env cfg pptx_bytes rest s1)"

definition pptx_to_heygen_images ::
  "env \<Rightarrow> config \<Rightarrow> bytes \<Rightarrow> nat \<Rightarrow> state \<Rightarrow> (exn + unit) \<times> state" where
  "pptx_to_heygen_images env cfg pptx_bytes slide_count s =
     slides_loop env cfg pptx_bytes [1..<slide_count + 1]
       (logging INFO (ConvertingSlides slide_count) s)"

section \<open>\<^verbatim>\<open>_generate_speaker_notes\<close> (lines 191 to 214)\<close>

text \<open>The placeholder of line 197 and the degraded note of line 213.\<close>

definition placeholder_note :: "nat \<Rightarrow> pystr" where
  "placeholder_note idx =
     [36825, 26159, 31532] @ str_nat idx @
     [24352, 24187, 28783, 29255, 65292, 20027, 35201, 23637, 31034, 22270, 29255, 20869,
      23481, 12290]"

definition fallback_prefix :: "nat \<Rightarrow> pystr" where
  "fallback_prefix idx = [31532] @ str_nat idx @ [24352, 24187, 28783, 29255, 20869, 23481, 65306]"

definition fallback_note :: "nat \<Rightarrow> pystr \<Rightarrow> pystr" where
  "fallback_note idx text = fallback_prefix idx @ take 50 text @ ascii ''...''"

definition system_prompt :: pystr where
  "system_prompt =
     [20320, 26159, 34394, 25311, 25945, 24072, 65292, 29992, 31616, 27905, 26131, 25026,
      30340, 35821, 35328, 35762, 35299, 24187, 28783, 29255, 20869, 23481, 65292, 35821,
      27668, 19987, 19994, 20146, 20999, 12290]"

definition user_prompt :: "pystr \<Rightarrow> pystr" where
  "user_prompt text =
     [26681, 25454, 20197, 19979, 24187, 28783, 29255, 25991, 26412, 29983, 25104, 35762,
      31295, 65306, 10] @ text"

definition notes_request :: "pystr \<Rightarrow> chat_request" where
  "notes_request text =
     \<lparr>model = ascii ''gpt-4o'',
      messages = [(ascii ''system'', system_prompt), (ascii ''user'', user_prompt text)],
      temperature = 7 / 10, max_tokens = 300\<rparr>"

text \<open>\<^verbatim>\<open>response.choices[0].message.content.strip()\<close>.\<close>

fun first_content :: "completion \<Rightarrow> exn + pystr" where
  "first_content [] = Inl IndexError"
| "first_content (None # cs) = Inl AttributeError"
| "first_content (Some t # cs) = Inr (strip t)"

text \<open>The loop body for one slide text: the note to append and the new state.\<close>

definition speaker_note :: "env \<Rightarrow> nat \<Rightarrow> pystr \<Rightarrow> state \<Rightarrow> pystr \<times> state" where
  "speaker_note env idx text s =
     (if strip text = [] then (placeholder_note idx, s)
      else
        let s1 = emit (ChatCompletion (notes_request text)) s in
        case then_e (chat_completions_create env (calls is_chat s) (notes_request text))
               first_content of
          Inr note \<Rightarrow> (note, s1)
        | Inl e \<Rightarrow> (fallback_note idx text, logging ERROR (NoteFailed idx e) s1))"

fun notes_loop ::
  "env \<Rightarrow> (nat \<times> pystr) list \<Rightarrow> pystr list \<Rightarrow> state \<Rightarrow> pystr list \<times> state" where
  "notes_loop env [] notes s = (notes, s)"
| "notes_loop env ((idx, text) # rest) notes s =
     (case speaker_note env idx text s of
        (note, s1) \<Rightarrow> notes_loop env rest (notes @ [note]) s1)"

definition generate_speaker_notes :: "env \<Rightarrow> pystr list \<Rightarrow> state \<Rightarrow> pystr list \<times> state" where
  "generate_speaker_notes env slide_texts s =
     notes_loop env (enumerate 1 slide_texts) []
       (logging INFO (GeneratingNotes (length slide_texts)) s)"

section \<open>\<^verbatim>\<open>_create_heygen_video\<close> (lines 216 to 252)\<close>

definition heygen_headers :: "config \<Rightarrow> (pystr \<times> pystr option) list" where
  "heygen_headers cfg =
     [(ascii ''Accept'', Some (ascii ''application/json'')),
      (ascii ''Content-Type'', Some (ascii ''application/json'')),
      (ascii ''X-Api-Key'', heygen_key cfg)]"

definition build_scene :: "config \<Rightarrow> json list \<Rightarrow> nat \<Rightarrow> pystr \<Rightarrow> scene" where
  "build_scene cfg asset_ids idx note =
     (let sc = \<lparr>character = TalkingPhoto (avatar_id cfg) (33 / 100) (42 / 100, 42 / 100),
                voice = TextVoice note (config_voice_id cfg),
                background = ColorBackground (ascii ''#FFFFFF'')\<rparr>
      in if idx < length asset_ids
         then sc\<lparr>background := ImageBackground (asset_ids ! idx)\<rparr>
         else sc)"

definition build_scenes :: "config \<Rightarrow> json list \<Rightarrow> pystr list \<Rightarrow> scene list" where
  "build_scenes cfg asset_ids speaker_notes =
     map (\<lambda>(idx, note). build_scene cfg asset_ids idx note) (enumerate 0 speaker_notes)"

definition create_heygen_video ::
  "env \<Rightarrow> config \<Rightarrow> pystr list \<Rightarrow> pystr \<Rightarrow> state \<Rightarrow> (exn + json) \<times> state" where
  "create_heygen_video env cfg speaker_notes video_title s =
     (let video_scenes = build_scenes cfg (slide_asset_ids s) speaker_notes;
          pl = \<lparr>video_inputs = video_scenes, dimension = video_size cfg, title = video_title\<rparr>
      in case request_with_retry env cfg (ascii ''POST'')
                (Url (ascii ''https://api.heygen.com/v2/video/generate''))
                \<lparr>headers = heygen_headers cfg, body = JsonBody pl\<rparr> s of
           (Inl e, s1) \<Rightarrow> (Inl e, s1)
         | (Inr response, s1) \<Rightarrow>
             (case then_e (json_body response) (\<lambda>j.
                   then_e (getitem j (ascii ''data'')) (\<lambda>d.
                   get_default d (ascii ''video_id'') JNull)) of
                Inl e \<Rightarrow> (Inl e, s1)
              | Inr video_id \<Rightarrow>
                  if \<not> truthy video_id then (Inl NoVideoId, s1)
                  else (Inr video_id, logging INFO (VideoCreated video_id) s1)))"

section \<open>\<^verbatim>\<open>_wait_for_video\<close> (lines 254 to 273)\<close>

definition unknown_error :: pystr where
  "unknown_error = [26410, 30693, 38169, 35823]"

text \<open>
  The \<^verbatim>\<open>while True\<close> loop has no bound, so the model is a partial function:
  \<open>None\<close> is a run that polls forever.
\<close>

partial_function (option) poll_loop ::
  "env \<Rightarrow> config \<Rightarrow> json \<Rightarrow> state \<Rightarrow> ((exn + json) \<times> state) option" where
  "poll_loop env cfg video_id s =
     (case request_with_retry env cfg (ascii ''GET'') (VideoStatusUrl video_id)
             \<lparr>headers = heygen_headers cfg, body = NoBody\<rparr> s of
        (Inl e, s1) \<Rightarrow> Some (Inl e, s1)
      | (Inr response, s1) \<Rightarrow>
          (case then_e (json_body response) (\<lambda>j. getitem j (ascii ''data'')) of
             Inl e \<Rightarrow> Some (Inl e, s1)
           | Inr data \<Rightarrow>
               (case getitem data (ascii ''status'') of
                  Inl e \<Rightarrow> Some (Inl e, s1)
                | Inr status \<Rightarrow>
                    if status = JStr (ascii ''completed'') \<or> status = JStr (ascii ''success'') then
                      (case getitem data (ascii ''video_url'') of
                         Inl e \<Rightarrow> Some (Inl e, s1)
                       | Inr video_url \<Rightarrow> Some (Inr video_url, s1))
                    else if status = JStr (ascii ''failed'') \<or> status = JStr (ascii ''error'') then
                      (case get_default data (ascii ''error'') (JStr unknown_error) of
                         Inl e \<Rightarrow> Some (Inl e, s1)
                       | Inr reason \<Rightarrow> Some (Inl (VideoGenerationFailed reason), s1))
                    else
                      poll_loop env cfg video_id
                        (sleep (poll_interval cfg) (logging INFO (VideoStatusPending status) s1)))))"

definition wait_for_video ::
  "env \<Rightarrow> config \<Rightarrow> json \<Rightarrow> state \<Rightarrow> ((exn + json) \<times> state) option" where
  "wait_for_video env cfg video_id s =
     poll_loop env cfg video_id (logging INFO (WaitingForVideo video_id (poll_interval cfg)) s)"

section \<open>\<^verbatim>\<open>convert\<close> (lines 275 to 315)\<close>

record conversion_result =
  result_video_id :: json
  result_video_url :: json
  slides_processed :: nat
  result_title :: pystr

text \<open>Lines 288 and 289: the limit applies only when \<^verbatim>\<open>max_slides\<close> is truthy.\<close>

definition limit_slides :: "int option \<Rightarrow> 'a list \<Rightarrow> 'a list" where
  "limit_slides max_slides slides =
     (case max_slides of
        None \<Rightarrow> slides
      | Some m \<Rightarrow> if m \<noteq> 0 then slice_to slides m else slides)"

definition slide_text :: "slide \<Rightarrow> pystr" where
  "slide_text shapes = join [10] (List.map_filter (\<lambda>shape. shape) shapes)"

definition final_title :: "pystr option \<Rightarrow> pystr \<Rightarrow> pystr" where
  "final_title video_title pptx_public_id =
     (let dflt = [80, 80, 84, 88, 36716, 25442, 35270, 39057, 95] @ pptx_public_id
      in case video_title of
           None \<Rightarrow> dflt
         | Some t \<Rightarrow> if t \<noteq> [] then t else dflt)"

text \<open>
  Steps 1 to 4 of \<^verbatim>\<open>convert\<close> (lines 277 to 302): what it has when the video job is
  about to be built, the speaker notes and the state holding \<^verbatim>\<open>self.slide_asset_ids\<close>.
\<close>

definition convert_notes ::
  "env \<Rightarrow> config \<Rightarrow> pystr \<Rightarrow> int option \<Rightarrow> state \<Rightarrow> (exn + pystr list) \<times> state" where
  "convert_notes env cfg pptx_public_id max_slides s =
     (case get_file_bytes env pptx_public_id (logging INFO (ProcessingPptx pptx_public_id) s) of
        (None, s1) \<Rightarrow> (Inl (PptxNotFound pptx_public_id), s1)
      | (Some pptx_bytes, s1) \<Rightarrow>
          if pptx_bytes = [] then (Inl (PptxNotFound pptx_public_id), s1)
          else
            (case parse_presentation env pptx_bytes of
               Inl e \<Rightarrow> (Inl e, s1)
             | Inr all_slides \<Rightarrow>
                 if all_slides = [] then (Inl NoSlides, s1)
                 else
                   let slides = limit_slides max_slides all_slides;
                       slide_texts = map slide_text slides
                   in (case pptx_to_heygen_images env cfg pptx_bytes (length slides) s1 of
                         (Inl e, s2) \<Rightarrow> (Inl e, s2)
                       | (Inr u, s2) \<Rightarrow>
                           if slide_asset_ids s2 = [] then (Inl NoSlidesConverted, s2)
                           else
                             (case generate_speaker_notes env
                                     (take (length (slide_asset_ids s2)) slide_texts) s2 of
                                (speaker_notes, s3) \<Rightarrow> (Inr speaker_notes, s3)))))"

text \<open>Steps 5 and 6 (lines 304 to 315). \<open>None\<close>: the wait for the video never ends.\<close>

definition convert ::
  "env \<Rightarrow> config \<Rightarrow> pystr \<Rightarrow> pystr option \<Rightarrow> int option \<Rightarrow> state
     \<Rightarrow> ((exn + conversion_result) \<times> state) option" where
  "convert env cfg pptx_public_id video_title max_slides s =
     (case convert_notes env cfg pptx_public_id max_slides s of
        (Inl e, s3) \<Rightarrow> Some (Inl e, s3)
      | (Inr speaker_notes, s3) \<Rightarrow>
          let ttl = final_title video_title pptx_public_id
          in (case create_heygen_video env cfg speaker_notes ttl s3 of
                (Inl e, s4) \<Rightarrow> Some (Inl e, s4)
              | (Inr video_id, s4) \<Rightarrow>
                  (case wait_for_video env cfg video_id s4 of
                     None \<Rightarrow> None
                   | Some (Inl e, s5) \<Rightarrow> Some (Inl e, s5)
                   | Some (Inr video_url, s5) \<Rightarrow>
                       Some (Inr \<lparr>result_video_id = video_id, result_video_url = video_url,
                                   slides_processed = length speaker_notes,
                                   result_title = ttl\<rparr>, s5))))"

section \<open>Observations on traces\<close>

text \<open>
  The events of a run of failed attempts, numbered from \<open>a\<close>: each one is the request,
  the warning of line 138 and the sleep of line 141.
\<close>

fun failed_attempts :: "request \<Rightarrow> nat \<Rightarrow> exn list \<Rightarrow> event list" where
  "failed_attempts req a [] = []"
| "failed_attempts req a (e # es) =
     [Request req, Log WARNING (RequestFailed (http_method req) (url req) (a + 1) e), Sleep (2 ^ a)]
       @ failed_attempts req (a + 1) es"

text \<open>The durations slept, in order.\<close>

fun sleeps :: "event list \<Rightarrow> nat list" where
  "sleeps [] = []"
| "sleeps (Sleep d # evs) = d # sleeps evs"
| "sleeps (ev # evs) = sleeps evs"

text \<open>
  The status query \<^verbatim>\<open>_wait_for_video\<close> sends, and what the \<open>n\<close>-th HTTP call
  answers to it when the answer is well formed: the \<^verbatim>\<open>data\<close> object and its
  \<^verbatim>\<open>status\<close>.
\<close>

definition status_query :: "config \<Rightarrow> json \<Rightarrow> request" where
  "status_query cfg video_id =
     \<lparr>http_method = ascii ''GET'', url = VideoStatusUrl video_id, timeout = 90,
      kwargs = \<lparr>headers = heygen_headers cfg, body = NoBody\<rparr>\<rparr>"

definition polled_status :: "env \<Rightarrow> request \<Rightarrow> nat \<Rightarrow> (json \<times> json) option" where
  "polled_status env req n =
     (case transport env n req of
        Inl e \<Rightarrow> None
      | Inr response \<Rightarrow>
          (case then_e (json_body response) (\<lambda>j. getitem j (ascii ''data'')) of
             Inl e \<Rightarrow> None
           | Inr data \<Rightarrow>
               (case getitem data (ascii ''status'') of
                  Inl e \<Rightarrow> None
                | Inr status \<Rightarrow> Some (data, status))))"

definition is_done :: "json \<Rightarrow> bool" where
  "is_done status = (status = JStr (ascii ''completed'') \<or> status = JStr (ascii ''success''))"

definition is_failed :: "json \<Rightarrow> bool" where
  "is_failed status = (status = JStr (ascii ''failed'') \<or> status = JStr (ascii ''error''))"

text \<open>
  The events of a run of polls that found the job pending: each one is the query, the
  log line of line 272 and the sleep of line 273.
\<close>

fun pending_polls :: "request \<Rightarrow> nat \<Rightarrow> json list \<Rightarrow> event list" where
  "pending_polls req interval [] = []"
| "pending_polls req interval (status # rest) =
     [Request req, Log INFO (VideoStatusPending status), Sleep interval]
       @ pending_polls req interval rest"




text \<open>The slide failures logged at line 185, in order.\<close>

fun slide_failures :: "event list \<Rightarrow> (nat \<times> exn) list" where
  "slide_failures [] = []"
| "slide_failures (Log ERROR (SlideFailed i e) # evs) = (i, e) # slide_failures evs"
| "slide_failures (ev # evs) = slide_failures evs"

section \<open>Example services\<close>

text \<open>
  A deterministic double of the services for the concrete runs below: every upload
  answers with an asset id naming the uploaded bytes, job creation with
  \<^verbatim>\<open>video_1\<close>, the status query with \<^verbatim>\<open>completed\<close>; the rasterizer fails
  exactly on the slide indices in \<open>failing\<close>; the language model echoes the prompt.
\<close>

definition ok_response :: "json \<Rightarrow> response" where
  "ok_response d = \<lparr>content = [], json_body = Inr (JObj [(ascii ''data'', d)])\<rparr>"

definition demo_transport :: "nat \<Rightarrow> request \<Rightarrow> exn + response" where
  "demo_transport n req =
     (case url req of
        VideoStatusUrl v \<Rightarrow>
          Inr (ok_response (JObj [(ascii ''status'', JStr (ascii ''completed'')),
                                  (ascii ''video_url'', JStr (ascii ''https://video/1''))]))
      | Url u \<Rightarrow>
          (case body (kwargs req) of
             NoBody \<Rightarrow> Inr \<lparr>content = [80, 75], json_body = Inl (LibraryError [])\<rparr>
           | Data b \<Rightarrow> Inr (ok_response (JObj [(ascii ''id'', JStr (ascii ''asset_'' @ b))]))
           | JsonBody p \<Rightarrow>
               Inr (ok_response (JObj [(ascii ''video_id'', JStr (ascii ''video_1''))]))))"

definition demo_env :: "nat list \<Rightarrow> slide list \<Rightarrow> env" where
  "demo_env failing deck =
     \<lparr>cloudinary_url = (\<lambda>public_id. Inr (ascii ''https://res/'' @ public_id)),
      transport = demo_transport,
      parse_presentation = (\<lambda>b. Inr deck),
      download_slide_online = (\<lambda>n doc idx.
         if idx \<in> set failing then Inl (LibraryError (ascii ''render''))
         else Inr (ascii ''/tmp/'' @ str_nat idx)),
      read_file = (\<lambda>p. Inr (drop 5 p)),
      path_exists = (\<lambda>p. True),
      os_remove = (\<lambda>p. None),
      guess_type = (\<lambda>name. Some (ascii ''image/png'')),
      chat_completions_create = (\<lambda>n r. Inr [Some (snd (last (messages r)))])\<rparr>"

definition demo_config :: config where
  "demo_config =
     default_config (Some (ascii ''key'')) (Some (ascii ''avatar'')) (Some (ascii ''voice''))"

text \<open>A transport that raises a \<^verbatim>\<open>RequestException\<close> on its first \<open>k\<close> calls.\<close>

definition flaky_transport :: "nat \<Rightarrow> response \<Rightarrow> nat \<Rightarrow> request \<Rightarrow> exn + response" where
  "flaky_transport k resp n req =
     (if n < k then Inl (RequestException (ascii ''timeout'')) else Inr resp)"

definition status_request :: request where
  "status_request =
     \<lparr>http_method = ascii ''GET'', url = VideoStatusUrl (JStr (ascii ''video_1'')), timeout = 90,
      kwargs = \<lparr>headers = [], body = NoBody\<rparr>\<rparr>"

text \<open>A status service that reports the statuses \<open>sts\<close> in turn and then \<open>final\<close> forever.\<close>

definition status_transport :: "json list \<Rightarrow> json \<Rightarrow> nat \<Rightarrow> request \<Rightarrow> exn + response" where
  "status_transport sts final n req =
     Inr (ok_response (JObj [(ascii ''status'', if n < length sts then sts ! n else final),
                             (ascii ''video_url'', JStr (ascii ''https://video/1'')),
                             (ascii ''error'', JStr (ascii ''render crashed''))]))"

text \<open>A language model whose calls numbered in \<open>failing\<close> raise; the others echo the prompt.\<close>

definition flaky_chat :: "nat list \<Rightarrow> nat \<Rightarrow> chat_request \<Rightarrow> exn + completion" where
  "flaky_chat failing n r =
     (if n \<in> set failing then Inl (LibraryError (ascii ''rate limit''))
      else Inr [Some (snd (last (messages r)))])"

definition intro_slide :: slide where
  "intro_slide = [Some (ascii ''Intro'')]"

definition demo_deck :: "slide list" where
  "demo_deck = [intro_slide, [Some (ascii ''Body''), None]]"

text \<open>The same services with a rasterizer that answers its first call only.\<close>

definition outage_env :: "slide list \<Rightarrow> env" where
  "outage_env deck =
     (demo_env [] deck)\<lparr>download_slide_online := (\<lambda>n doc idx.
        if n < 1 then Inr (ascii ''/tmp/'' @ str_nat idx)
        else Inl (LibraryError (ascii ''render'')))\<rparr>"

text \<open>
  The same services with a rasterizer that writes empty images and temporary files
  that cannot be removed.
\<close>

definition locked_env :: env where
  "locked_env =
     (demo_env [] [])\<lparr>read_file := (\<lambda>p. Inr []),
                       os_remove := (\<lambda>p. Some (LibraryError (ascii ''busy'')))\<rparr>"

section \<open>Basic facts about the state\<close>

lemmas run_defs =
  convert_def convert_notes_def get_file_bytes_def do_request_def emit_def logging_def sleep_def
  calls_def pptx_to_heygen_images_def slide_iteration_def slide_try_def cleanup_def
  upload_to_heygen_def request_with_retry_def then_e_def generate_speaker_notes_def
  speaker_note_def notes_request_def create_heygen_video_def build_scenes_def build_scene_def
  wait_for_video_def limit_slides_def slide_text_def final_title_def slide_file_name_def
  heygen_headers_def enumerate_eq_zip List.map_filter_def user_prompt_def system_prompt_def
  ascii_def strip_def isspace_def

lemmas demo_defs =
  demo_env_def demo_transport_def demo_config_def ok_response_def default_config_def
  initial_state_def flaky_transport_def status_request_def status_transport_def flaky_chat_def
  demo_deck_def intro_slide_def outage_env_def locked_env_def

lemma calls_emit [simp]: "calls kind (emit ev s) = calls kind s + (if kind ev then 1 else 0)"
  by (simp add: calls_def emit_def)

lemma trace_emit [simp]: "trace (emit ev s) = trace s @ [ev]"
  by (simp add: emit_def)

lemma slide_asset_ids_emit [simp]: "slide_asset_ids (emit ev s) = slide_asset_ids s"
  by (simp add: emit_def)

lemma emit_eq: "emit ev s = s\<lparr>trace := trace s @ [ev]\<rparr>"
  by (simp add: emit_def)

section \<open>The retry wrapper\<close>

lemma retry_succeeds:
  assumes "a + length es < n"
    and "\<forall>j < length es. is_request_exception (es ! j) \<and>
           transport env (calls is_request s + j) req = Inl (es ! j)"
    and "transport env (calls is_request s + length es) req = Inr r"
  shows "request_attempts env n req [a..<n] s =
           (Inr r, s\<lparr>trace := trace s @ failed_attempts req a es @ [Request req]\<rparr>)"
  using assms
proof (induction es arbitrary: a s)
  case Nil
  then have "[a..<n] = a # [Suc a..<n]" by (simp add: upt_conv_Cons)
  with Nil show ?case by (simp add: do_request_def emit_eq)
next
  case (Cons e es)
  from Cons.prems(1) have up: "[a..<n] = a # [Suc a..<n]" and ne: "a \<noteq> n - 1"
    by (simp_all add: upt_conv_Cons)
  from Cons.prems(2) have e0: "is_request_exception e"
      "transport env (calls is_request s) req = Inl e"
    by auto
  let ?s' = "sleep (2 ^ a)
     (logging WARNING (RequestFailed (http_method req) (url req) (a + 1) e) (emit (Request req) s))"
  have c: "calls is_request ?s' = Suc (calls is_request s)"
    by (simp add: sleep_def logging_def)
  have "request_attempts env n req [Suc a..<n] ?s' =
          (Inr r, ?s'\<lparr>trace := trace ?s' @ failed_attempts req (Suc a) es @ [Request req]\<rparr>)"
  proof (rule Cons.IH)
    show "Suc a + length es < n" using Cons.prems(1) by simp
    show "\<forall>j<length es. is_request_exception (es ! j) \<and>
            transport env (calls is_request ?s' + j) req = Inl (es ! j)"
      using Cons.prems(2) c by fastforce
    show "transport env (calls is_request ?s' + length es) req = Inr r"
      using Cons.prems(3) c by simp
  qed
  then show ?case
    using up ne e0 by (simp add: do_request_def sleep_def logging_def emit_eq)
qed

lemma retry_exhausted:
  assumes "a + length es = n" and "es \<noteq> []"
    and "\<forall>j < length es. is_request_exception (es ! j) \<and>
           transport env (calls is_request s + j) req = Inl (es ! j)"
  shows "request_attempts env n req [a..<n] s =
           (Inl (last es), s\<lparr>trace := trace s @ butlast (failed_attempts req a es)\<rparr>)"
  using assms
proof (induction es arbitrary: a s)
  case Nil
  then show ?case by simp
next
  case (Cons e es)
  from Cons.prems(1) have up: "[a..<n] = a # [Suc a..<n]"
    by (simp add: upt_conv_Cons)
  from Cons.prems(3) have e0: "is_request_exception e"
      "transport env (calls is_request s) req = Inl e"
    by auto
  show ?case
  proof (cases "es = []")
    case True
    with Cons.prems(1) have "a = n - 1" by simp
    with True up e0 show ?thesis
      by (simp add: do_request_def logging_def emit_eq)
  next
    case False
    with Cons.prems(1) have ne: "a \<noteq> n - 1" by (cases es) auto
    let ?s' = "sleep (2 ^ a)
       (logging WARNING (RequestFailed (http_method req) (url req) (a + 1) e) (emit (Request req) s))"
    have c: "calls is_request ?s' = Suc (calls is_request s)"
      by (simp add: sleep_def logging_def)
    have "request_attempts env n req [Suc a..<n] ?s' =
            (Inl (last es),
             ?s'\<lparr>trace := trace ?s' @ butlast (failed_attempts req (Suc a) es)\<rparr>)"
    proof (rule Cons.IH)
      show "Suc a + length es = n" using Cons.prems(1) by simp
      show "es \<noteq> []" by (rule False)
      show "\<forall>j<length es. is_request_exception (es ! j) \<and>
              transport env (calls is_request ?s' + j) req = Inl (es ! j)"
        using Cons.prems(3) c by fastforce
    qed
    moreover have "failed_attempts req (Suc a) es \<noteq> []" using False by (cases es) auto
    ultimately show ?thesis
      using up ne e0 False
      by (simp add: do_request_def sleep_def logging_def emit_eq butlast_append)
  qed
qed

lemma sleeps_append: "sleeps (xs @ ys) = sleeps xs @ sleeps ys"
  by (induction xs rule: sleeps.induct) simp_all

lemma sleeps_failed_attempts:
  "sleeps (failed_attempts req a es) = map (\<lambda>j. 2 ^ j) [a..<a + length es]"
proof (induction es arbitrary: a)
  case Nil
  show ?case by simp
next
  case (Cons e es)
  have "[a..<a + Suc (length es)] = a # [Suc a..<a + Suc (length es)]"
    by (rule upt_conv_Cons) simp
  with Cons [of "Suc a"] show ?case by (simp del: upt_Suc)
qed

lemma requests_failed_attempts:
  "length (filter is_request (failed_attempts req a es)) = length es"
  by (induction es arbitrary: a) simp_all

lemma list_of_length_3: "length es = 3 \<Longrightarrow> es = [es ! 0, es ! 1, es ! 2]"
  by (cases es; simp; cases "tl es"; simp; cases "tl (tl es)"; simp)

text \<open>
  Claim C3. With \<^verbatim>\<open>retry_times = 3\<close>: when the transport raises a request exception
  on the first \<open>k < 3\<close> attempts (the exceptions \<open>es\<close>) and answers on the next one, the
  wrapper returns that response after exactly \<open>k + 1\<close> requests, each failed attempt
  followed by its warning and a sleep of \<open>2 ^ attempt\<close> (attempts counted from 0);
  when all three attempts fail, it makes exactly three requests, sleeps 1 and 2 between
  them, and raises the last exception.
\<close>

theorem request_with_retry_three_attempts:
  assumes "retry_times cfg = 3"
    and "req = \<lparr>http_method = meth, url = u, timeout = 90, kwargs = kw\<rparr>"
    and "\<forall>j < length es. is_request_exception (es ! j) \<and>
           transport env (calls is_request s + j) req = Inl (es ! j)"
  shows "(length es < 3 \<and> transport env (calls is_request s + length es) req = Inr r \<longrightarrow>
            (let s' = s\<lparr>trace := trace s @ failed_attempts req 0 es @ [Request req]\<rparr> in
             request_with_retry env cfg meth u kw s = (Inr r, s') \<and>
             calls is_request s' = calls is_request s + (length es + 1) \<and>
             sleeps (trace s') = sleeps (trace s) @ map (\<lambda>attempt. 2 ^ attempt) [0..<length es]))
       \<and> (length es = 3 \<longrightarrow>
            (let s' = s\<lparr>trace := trace s @
                       [Request req, Log WARNING (RequestFailed meth u 1 (es ! 0)), Sleep 1,
                        Request req, Log WARNING (RequestFailed meth u 2 (es ! 1)), Sleep 2,
                        Request req, Log WARNING (RequestFailed meth u 3 (es ! 2))]\<rparr> in
             request_with_retry env cfg meth u kw s = (Inl (es ! 2), s') \<and>
             calls is_request s' = calls is_request s + 3))"
proof (intro conjI impI)
  assume h: "length es < 3 \<and> transport env (calls is_request s + length es) req = Inr r"
  let ?s' = "s\<lparr>trace := trace s @ failed_attempts req 0 es @ [Request req]\<rparr>"
  have run: "request_attempts env 3 req [0..<3] s = (Inr r, ?s')"
    using h assms(3) by (intro retry_succeeds) simp_all
  have "request_with_retry env cfg meth u kw s = (Inr r, ?s')"
    using run assms(1,2) by (simp add: request_with_retry_def)
  moreover have "calls is_request ?s' = calls is_request s + (length es + 1)"
    by (simp add: calls_def requests_failed_attempts)
  moreover have "sleeps (trace ?s') = sleeps (trace s) @ map (\<lambda>attempt. 2 ^ attempt) [0..<length es]"
    by (simp add: sleeps_append sleeps_failed_attempts)
  ultimately show "let s' = ?s' in
             request_with_retry env cfg meth u kw s = (Inr r, s') \<and>
             calls is_request s' = calls is_request s + (length es + 1) \<and>
             sleeps (trace s') = sleeps (trace s) @ map (\<lambda>attempt. 2 ^ attempt) [0..<length es]"
    by (simp add: Let_def)
next
  assume h: "length es = 3"
  then have es: "es = [es ! 0, es ! 1, es ! 2]" by (rule list_of_length_3)
  have run: "request_attempts env 3 req [0..<3] s =
               (Inl (last es), s\<lparr>trace := trace s @ butlast (failed_attempts req 0 es)\<rparr>)"
    using h assms(3) by (intro retry_exhausted) auto
  have tr: "butlast (failed_attempts req 0 es) =
        [Request req, Log WARNING (RequestFailed meth u 1 (es ! 0)), Sleep 1,
         Request req, Log WARNING (RequestFailed meth u 2 (es ! 1)), Sleep 2,
         Request req, Log WARNING (RequestFailed meth u 3 (es ! 2))]"
    by (subst es) (simp add: assms(2))
  have la: "last es = es ! 2" by (subst es) simp
  show "let s' = s\<lparr>trace := trace s @
                       [Request req, Log WARNING (RequestFailed meth u 1 (es ! 0)), Sleep 1,
                        Request req, Log WARNING (RequestFailed meth u 2 (es ! 1)), Sleep 2,
                        Request req, Log WARNING (RequestFailed meth u 3 (es ! 2))]\<rparr> in
             request_with_retry env cfg meth u kw s = (Inl (es ! 2), s') \<and>
             calls is_request s' = calls is_request s + 3"
    using run assms(1,2) unfolding tr la
    by (simp add: request_with_retry_def Let_def calls_def)
qed

theorem request_with_retry_three_attempts_witness:
  "retry_times demo_config = 3 \<and>
   request_with_retry ((demo_env [] [])\<lparr>transport := flaky_transport 2 (ok_response JNull)\<rparr>)
      demo_config (ascii ''GET'') (VideoStatusUrl (JStr (ascii ''video_1'')))
      \<lparr>headers = [], body = NoBody\<rparr> initial_state =
     (Inr (ok_response JNull),
      \<lparr>slide_asset_ids = [],
       trace = [Request status_request,
                Log WARNING (RequestFailed (ascii ''GET'') (VideoStatusUrl (JStr (ascii ''video_1''))) 1
                               (RequestException (ascii ''timeout''))),
                Sleep 1,
                Request status_request,
                Log WARNING (RequestFailed (ascii ''GET'') (VideoStatusUrl (JStr (ascii ''video_1''))) 2
                               (RequestException (ascii ''timeout''))),
                Sleep 2,
                Request status_request]\<rparr>)
   \<and> fst (request_with_retry ((demo_env [] [])\<lparr>transport := flaky_transport 3 (ok_response JNull)\<rparr>)
      demo_config (ascii ''GET'') (VideoStatusUrl (JStr (ascii ''video_1'')))
      \<lparr>headers = [], body = NoBody\<rparr> initial_state) = Inl (RequestException (ascii ''timeout''))"
  using request_with_retry_three_attempts
          [of demo_config status_request "ascii ''GET''" "VideoStatusUrl (JStr (ascii ''video_1''))"
              "\<lparr>headers = [], body = NoBody\<rparr>"
              "[RequestException (ascii ''timeout''), RequestException (ascii ''timeout'')]"
              "(demo_env [] [])\<lparr>transport := flaky_transport 2 (ok_response JNull)\<rparr>"
              initial_state "ok_response JNull"]
        request_with_retry_three_attempts
          [of demo_config status_request "ascii ''GET''" "VideoStatusUrl (JStr (ascii ''video_1''))"
              "\<lparr>headers = [], body = NoBody\<rparr>"
              "[RequestException (ascii ''timeout''), RequestException (ascii ''timeout''),
                RequestException (ascii ''timeout'')]"
              "(demo_env [] [])\<lparr>transport := flaky_transport 3 (ok_response JNull)\<rparr>"
              initial_state "ok_response JNull"]
  by (simp add: demo_defs calls_def Let_def nth_Cons' less_Suc_eq_0_disj)

section \<open>The poll loop\<close>

lemma retry_first_try:
  assumes "0 < retry_times cfg"
    and "transport env (calls is_request s) \<lparr>http_method = meth, url = u, timeout = 90, kwargs = kw\<rparr> = Inr r"
  shows "request_with_retry env cfg meth u kw s =
           (Inr r, emit (Request \<lparr>http_method = meth, url = u, timeout = 90, kwargs = kw\<rparr>) s)"
  using retry_succeeds [of 0 "[]" "retry_times cfg" env s _ r] assms
  by (simp add: request_with_retry_def emit_eq)

lemma polled_statusD:
  assumes "polled_status env req n = Some (d, st)"
  obtains response where "transport env n req = Inr response"
    and "then_e (json_body response) (\<lambda>j. getitem j (ascii ''data'')) = Inr d"
    and "getitem d (ascii ''status'') = Inr st"
  using assms by (auto simp: polled_status_def split: sum.splits)

lemma getitem_InrD: "getitem d k = Inr v \<Longrightarrow> \<exists>kvs. d = JObj kvs \<and> map_of kvs k = Some v"
  by (cases d) (auto split: option.splits)

lemma poll_pending:
  assumes "0 < retry_times cfg"
    and "polled_status env (status_query cfg video_id) (calls is_request s) = Some (d, st)"
    and "\<not> is_done st" "\<not> is_failed st"
  shows "poll_loop env cfg video_id s =
           poll_loop env cfg video_id
             (s\<lparr>trace := trace s @ [Request (status_query cfg video_id),
                                    Log INFO (VideoStatusPending st), Sleep (poll_interval cfg)]\<rparr>)"
proof -
  from assms(2) obtain response where
    t: "transport env (calls is_request s) (status_query cfg video_id) = Inr response"
    and j: "then_e (json_body response) (\<lambda>j. getitem j (ascii ''data'')) = Inr d"
    and st: "getitem d (ascii ''status'') = Inr st"
    by (rule polled_statusD)
  have r: "request_with_retry env cfg (ascii ''GET'') (VideoStatusUrl video_id)
             \<lparr>headers = heygen_headers cfg, body = NoBody\<rparr> s =
           (Inr response, emit (Request (status_query cfg video_id)) s)"
    using retry_first_try [OF assms(1), of env s "ascii ''GET''" "VideoStatusUrl video_id"
        "\<lparr>headers = heygen_headers cfg, body = NoBody\<rparr>" response] t
    by (simp add: status_query_def)
  show ?thesis
    apply (subst poll_loop.simps)
    using assms(3,4)
    apply (simp add: r j st is_done_def is_failed_def sleep_def logging_def emit_eq)
    done
qed

lemma poll_terminal:
  assumes "0 < retry_times cfg"
    and "polled_status env (status_query cfg video_id) (calls is_request s) = Some (d, st)"
  shows "is_done st \<Longrightarrow> poll_loop env cfg video_id s =
           (case getitem d (ascii ''video_url'') of
              Inl e \<Rightarrow> Some (Inl e, emit (Request (status_query cfg video_id)) s)
            | Inr u \<Rightarrow> Some (Inr u, emit (Request (status_query cfg video_id)) s))"
    and "\<not> is_done st \<Longrightarrow> is_failed st \<Longrightarrow> \<exists>reason.
           get_default d (ascii ''error'') (JStr unknown_error) = Inr reason \<and>
           poll_loop env cfg video_id s =
             Some (Inl (VideoGenerationFailed reason), emit (Request (status_query cfg video_id)) s)"
proof -
  from assms(2) obtain response where
    t: "transport env (calls is_request s) (status_query cfg video_id) = Inr response"
    and j: "then_e (json_body response) (\<lambda>j. getitem j (ascii ''data'')) = Inr d"
    and st: "getitem d (ascii ''status'') = Inr st"
    by (rule polled_statusD)
  have r: "request_with_retry env cfg (ascii ''GET'') (VideoStatusUrl video_id)
             \<lparr>headers = heygen_headers cfg, body = NoBody\<rparr> s =
           (Inr response, emit (Request (status_query cfg video_id)) s)"
    using retry_first_try [OF assms(1), of env s "ascii ''GET''" "VideoStatusUrl video_id"
        "\<lparr>headers = heygen_headers cfg, body = NoBody\<rparr>" response] t
    by (simp add: status_query_def)
  show "is_done st \<Longrightarrow> poll_loop env cfg video_id s =
           (case getitem d (ascii ''video_url'') of
              Inl e \<Rightarrow> Some (Inl e, emit (Request (status_query cfg video_id)) s)
            | Inr u \<Rightarrow> Some (Inr u, emit (Request (status_query cfg video_id)) s))"
    apply (subst poll_loop.simps)
    apply (simp add: r j st is_done_def split: sum.splits)
    done
  from st obtain kvs where d: "d = JObj kvs" by (auto dest: getitem_InrD)
  show "\<not> is_done st \<Longrightarrow> is_failed st \<Longrightarrow> \<exists>reason.
           get_default d (ascii ''error'') (JStr unknown_error) = Inr reason \<and>
           poll_loop env cfg video_id s =
             Some (Inl (VideoGenerationFailed reason), emit (Request (status_query cfg video_id)) s)"
  proof -
    assume nd: "\<not> is_done st" and f: "is_failed st"
    from d obtain reason where g: "get_default d (ascii ''error'') (JStr unknown_error) = Inr reason"
      by (cases "map_of kvs (ascii ''error'')") auto
    have "poll_loop env cfg video_id s =
             Some (Inl (VideoGenerationFailed reason), emit (Request (status_query cfg video_id)) s)"
      apply (subst poll_loop.simps)
      using nd f
      apply (simp add: r j st g is_done_def is_failed_def)
      done
    with g show ?thesis by blast
  qed
qed

lemma requests_pending_polls:
  "length (filter is_request (pending_polls req interval sts)) = length sts"
  by (induction sts) simp_all

lemma sleeps_pending_polls:
  "sleeps (pending_polls req interval sts) = replicate (length sts) interval"
  by (induction sts) simp_all

lemma calls_trace_append:
  "calls kind (s\<lparr>trace := trace s @ evs\<rparr>) = calls kind s + length (filter kind evs)"
  by (simp add: calls_def)

lemma poll_sequence:
  assumes "0 < retry_times cfg"
    and "\<forall>j < length sts. \<not> is_done (sts ! j) \<and> \<not> is_failed (sts ! j) \<and>
           (\<exists>d. polled_status env (status_query cfg video_id) (calls is_request s + j) = Some (d, sts ! j))"
  shows "poll_loop env cfg video_id s =
           poll_loop env cfg video_id
             (s\<lparr>trace := trace s @ pending_polls (status_query cfg video_id) (poll_interval cfg) sts\<rparr>)"
  using assms(2)
proof (induction sts arbitrary: s)
  case Nil
  show ?case by simp
next
  case (Cons st sts)
  let ?req = "status_query cfg video_id"
  let ?s1 = "s\<lparr>trace := trace s @ [Request ?req, Log INFO (VideoStatusPending st),
                                      Sleep (poll_interval cfg)]\<rparr>"
  from Cons.prems have h0: "\<not> is_done st" "\<not> is_failed st"
      "\<exists>d. polled_status env ?req (calls is_request s) = Some (d, st)"
    by auto
  then obtain d where d: "polled_status env ?req (calls is_request s) = Some (d, st)" by blast
  have step: "poll_loop env cfg video_id s = poll_loop env cfg video_id ?s1"
    using poll_pending [OF assms(1) d h0(1,2)] .
  have c: "calls is_request ?s1 = Suc (calls is_request s)"
    by (simp add: calls_def)
  have "\<forall>j < length sts. \<not> is_done (sts ! j) \<and> \<not> is_failed (sts ! j) \<and>
           (\<exists>d. polled_status env ?req (calls is_request ?s1 + j) = Some (d, sts ! j))"
  proof (intro allI impI)
    fix j assume "j < length sts"
    then have "Suc j < length (st # sts)" by simp
    with Cons.prems have "\<not> is_done ((st # sts) ! Suc j) \<and> \<not> is_failed ((st # sts) ! Suc j) \<and>
           (\<exists>d. polled_status env ?req (calls is_request s + Suc j) = Some (d, (st # sts) ! Suc j))"
      by blast
    then show "\<not> is_done (sts ! j) \<and> \<not> is_failed (sts ! j) \<and>
           (\<exists>d. polled_status env ?req (calls is_request ?s1 + j) = Some (d, sts ! j))"
      using c by simp
  qed
  then have "poll_loop env cfg video_id ?s1 =
           poll_loop env cfg video_id
             (?s1\<lparr>trace := trace ?s1 @ pending_polls ?req (poll_interval cfg) sts\<rparr>)"
    by (rule Cons.IH)
  with step show ?case by simp
qed

lemma poll_forever:
  assumes "0 < retry_times cfg"
    and "\<forall>n. \<exists>d st. polled_status env (status_query cfg video_id) n = Some (d, st) \<and>
           \<not> is_done st \<and> \<not> is_failed st"
  shows "poll_loop env cfg video_id s = None"
proof -
  define pending where "pending env cfg video_id \<longleftrightarrow>
     0 < retry_times cfg \<and>
     (\<forall>n. \<exists>d st. polled_status env (status_query cfg video_id) n = Some (d, st) \<and>
           \<not> is_done st \<and> \<not> is_failed st)" for env cfg video_id
  have "\<not> pending env cfg video_id" if run: "poll_loop env cfg video_id s = Some y" for y
  proof (induction rule: poll_loop.raw_induct [where y = y and s = s])
    case (1 loop env cfg video_id s y)
    show ?case
    proof
      assume p: "pending env cfg video_id"
      then have rt: "0 < retry_times cfg" by (simp add: pending_def)
      from p obtain d st where
        ps: "polled_status env (status_query cfg video_id) (calls is_request s) = Some (d, st)"
        and nd: "\<not> is_done st" and nf: "\<not> is_failed st"
        unfolding pending_def by blast
      from ps obtain response where
        t: "transport env (calls is_request s) (status_query cfg video_id) = Inr response"
        and j: "then_e (json_body response) (\<lambda>j. getitem j (ascii ''data'')) = Inr d"
        and st: "getitem d (ascii ''status'') = Inr st"
        by (rule polled_statusD)
      have r: "request_with_retry env cfg (ascii ''GET'') (VideoStatusUrl video_id)
                 \<lparr>headers = heygen_headers cfg, body = NoBody\<rparr> s =
               (Inr response, emit (Request (status_query cfg video_id)) s)"
        using retry_first_try [OF rt, of env s "ascii ''GET''" "VideoStatusUrl video_id"
            "\<lparr>headers = heygen_headers cfg, body = NoBody\<rparr>" response] t
        by (simp add: status_query_def)
      let ?s1 = "s\<lparr>trace := trace s @ [Request (status_query cfg video_id),
                       Log INFO (VideoStatusPending st), Sleep (poll_interval cfg)]\<rparr>"
      from "1.hyps" nd nf have "loop env cfg video_id ?s1 = Some y"
        by (simp add: r j st is_done_def is_failed_def sleep_def logging_def emit_eq)
      then have "\<not> pending env cfg video_id" by (rule "1.IH")
      with p show False by contradiction
    qed
  next
    show "poll_loop env cfg video_id s = Some y" by (rule run)
  qed
  moreover have "pending env cfg video_id" using assms by (simp add: pending_def)
  ultimately show ?thesis by (cases "poll_loop env cfg video_id s") auto
qed

lemma is_failed_not_done: "is_failed st \<Longrightarrow> \<not> is_done st"
  by (auto simp: is_failed_def is_done_def ascii_def)

text \<open>
  Claim C4. The poll loop of \<^verbatim>\<open>_wait_for_video\<close>, for every sequence of status answers:
  while the answers \<open>sts\<close> are neither completed/success nor failed/error it logs,
  sleeps the configured poll interval (10 by default) and queries again; on
  completed/success it returns the reported video URL; on failed/error it raises the
  video-generation-failed error with the reported reason (or the default one). It makes
  one query per answer and sleeps once per pending answer. It has no deadline: when
  every answer is pending, the wait never returns.
\<close>

theorem wait_for_video_polling:
  assumes rt: "0 < retry_times cfg"
    and req: "req = status_query cfg video_id"
    and s0: "s0 = logging INFO (WaitingForVideo video_id (poll_interval cfg)) s"
  shows
    "((\<forall>j < length sts. \<not> is_done (sts ! j) \<and> \<not> is_failed (sts ! j) \<and>
          (\<exists>d. polled_status env req (calls is_request s + j) = Some (d, sts ! j)))
       \<and> polled_status env req (calls is_request s + length sts) = Some (data, status)
       \<and> s' = s0\<lparr>trace := trace s0 @ pending_polls req (poll_interval cfg) sts @ [Request req]\<rparr>
      \<longrightarrow>
        (is_done status \<and> getitem data (ascii ''video_url'') = Inr video_url \<longrightarrow>
           wait_for_video env cfg video_id s = Some (Inr video_url, s'))
        \<and> (is_failed status \<longrightarrow>
             (\<exists>reason. get_default data (ascii ''error'') (JStr unknown_error) = Inr reason \<and>
                wait_for_video env cfg video_id s = Some (Inl (VideoGenerationFailed reason), s')))
        \<and> calls is_request s' = calls is_request s + length sts + 1
        \<and> sleeps (trace s') = sleeps (trace s) @ replicate (length sts) (poll_interval cfg))
     \<and> ((\<forall>n. \<exists>d st. polled_status env req n = Some (d, st) \<and> \<not> is_done st \<and> \<not> is_failed st)
          \<longrightarrow> wait_for_video env cfg video_id s = None)
     \<and> poll_interval (default_config key avatar voice_ident) = 10"
proof (intro conjI impI)
  assume h: "(\<forall>j < length sts. \<not> is_done (sts ! j) \<and> \<not> is_failed (sts ! j) \<and>
          (\<exists>d. polled_status env req (calls is_request s + j) = Some (d, sts ! j)))
       \<and> polled_status env req (calls is_request s + length sts) = Some (data, status)
       \<and> s' = s0\<lparr>trace := trace s0 @ pending_polls req (poll_interval cfg) sts @ [Request req]\<rparr>"
  let ?s1 = "s0\<lparr>trace := trace s0 @ pending_polls req (poll_interval cfg) sts\<rparr>"
  have c0: "calls is_request s0 = calls is_request s"
    by (simp add: s0 logging_def)
  have seq: "poll_loop env cfg video_id s0 = poll_loop env cfg video_id ?s1"
    unfolding req using rt
  proof (rule poll_sequence)
    show "\<forall>j<length sts. \<not> is_done (sts ! j) \<and> \<not> is_failed (sts ! j) \<and>
            (\<exists>d. polled_status env (status_query cfg video_id) (calls is_request s0 + j) =
                    Some (d, sts ! j))"
      using h c0 req by simp
  qed
  have c1: "calls is_request ?s1 = calls is_request s + length sts"
    by (simp add: calls_trace_append requests_pending_polls c0)
  have ps: "polled_status env (status_query cfg video_id) (calls is_request ?s1) = Some (data, status)"
    using h c1 req by simp
  have s': "s' = emit (Request (status_query cfg video_id)) ?s1"
    using h req by (simp add: emit_eq)
  show "wait_for_video env cfg video_id s = Some (Inr video_url, s')"
    if "is_done status \<and> getitem data (ascii ''video_url'') = Inr video_url"
    using that poll_terminal(1) [OF rt ps] seq s' by (simp add: wait_for_video_def s0)
  show "\<exists>reason. get_default data (ascii ''error'') (JStr unknown_error) = Inr reason \<and>
          wait_for_video env cfg video_id s = Some (Inl (VideoGenerationFailed reason), s')"
    if "is_failed status"
    using poll_terminal(2) [OF rt ps is_failed_not_done [OF that] that] seq s'
    by (simp add: wait_for_video_def s0)
  show "calls is_request s' = calls is_request s + length sts + 1"
    using c1 by (simp add: s')
  show "sleeps (trace s') = sleeps (trace s) @ replicate (length sts) (poll_interval cfg)"
    by (simp add: s' s0 logging_def sleeps_append sleeps_pending_polls)
next
  assume "\<forall>n. \<exists>d st. polled_status env req n = Some (d, st) \<and> \<not> is_done st \<and> \<not> is_failed st"
  then show "wait_for_video env cfg video_id s = None"
    using poll_forever [OF rt, of env video_id] req by (simp add: wait_for_video_def)
next
  show "poll_interval (default_config key avatar voice_ident) = 10"
    by (simp add: default_config_def)
qed

theorem wait_for_video_polling_witness:
  "0 < retry_times demo_config \<and>
   (case wait_for_video
           ((demo_env [] [])\<lparr>transport :=
               status_transport [JStr (ascii ''processing''), JStr (ascii ''processing'')]
                 (JStr (ascii ''completed''))\<rparr>)
           demo_config (JStr (ascii ''video_1'')) initial_state of
      Some (Inr u, s') \<Rightarrow>
        u = JStr (ascii ''https://video/1'') \<and> calls is_request s' = 3 \<and>
        sleeps (trace s') = [10, 10]
    | _ \<Rightarrow> False)
   \<and> (case wait_for_video
           ((demo_env [] [])\<lparr>transport := status_transport [] (JStr (ascii ''failed''))\<rparr>)
           demo_config (JStr (ascii ''video_1'')) initial_state of
      Some (Inl e, s') \<Rightarrow>
        e = VideoGenerationFailed (JStr (ascii ''render crashed'')) \<and>
        calls is_request s' = 1 \<and> sleeps (trace s') = []
    | _ \<Rightarrow> False)
   \<and> wait_for_video
        ((demo_env [] [])\<lparr>transport := status_transport [] (JStr (ascii ''processing''))\<rparr>)
        demo_config (JStr (ascii ''video_1'')) initial_state = None"
  using wait_for_video_polling
     [where cfg = demo_config and video_id = "JStr (ascii ''video_1'')" and s = initial_state
        and req = "status_query demo_config (JStr (ascii ''video_1''))"
        and ?s0.0 = "logging INFO (WaitingForVideo (JStr (ascii ''video_1'')) (poll_interval demo_config))
                   initial_state"
        and sts = "[JStr (ascii ''processing''), JStr (ascii ''processing'')]"
        and env = "(demo_env [] [])\<lparr>transport :=
               status_transport [JStr (ascii ''processing''), JStr (ascii ''processing'')]
                 (JStr (ascii ''completed''))\<rparr>"
        and data = "JObj [(ascii ''status'', JStr (ascii ''completed'')),
                          (ascii ''video_url'', JStr (ascii ''https://video/1'')),
                          (ascii ''error'', JStr (ascii ''render crashed''))]"
        and status = "JStr (ascii ''completed'')"
        and video_url = "JStr (ascii ''https://video/1'')"
        and s' = "(logging INFO (WaitingForVideo (JStr (ascii ''video_1'')) (poll_interval demo_config))
                   initial_state)\<lparr>trace := trace (logging INFO (WaitingForVideo (JStr (ascii ''video_1'')) (poll_interval demo_config))
                   initial_state) @ pending_polls (status_query demo_config (JStr (ascii ''video_1''))) (poll_interval demo_config) [JStr (ascii ''processing''), JStr (ascii ''processing'')] @ [Request (status_query demo_config (JStr (ascii ''video_1'')))]\<rparr>"]
    wait_for_video_polling
     [where cfg = demo_config and video_id = "JStr (ascii ''video_1'')" and s = initial_state
        and req = "status_query demo_config (JStr (ascii ''video_1''))"
        and ?s0.0 = "logging INFO (WaitingForVideo (JStr (ascii ''video_1'')) (poll_interval demo_config))
                   initial_state"
        and sts = "[]"
        and env = "(demo_env [] [])\<lparr>transport := status_transport [] (JStr (ascii ''failed''))\<rparr>"
        and data = "JObj [(ascii ''status'', JStr (ascii ''failed'')),
                          (ascii ''video_url'', JStr (ascii ''https://video/1'')),
                          (ascii ''error'', JStr (ascii ''render crashed''))]"
        and status = "JStr (ascii ''failed'')"
        and s' = "(logging INFO (WaitingForVideo (JStr (ascii ''video_1'')) (poll_interval demo_config))
                   initial_state)\<lparr>trace := trace (logging INFO (WaitingForVideo (JStr (ascii ''video_1'')) (poll_interval demo_config))
                   initial_state) @ [Request (status_query demo_config (JStr (ascii ''video_1'')))]\<rparr>"]
    wait_for_video_polling
     [where cfg = demo_config and video_id = "JStr (ascii ''video_1'')" and s = initial_state
        and req = "status_query demo_config (JStr (ascii ''video_1''))"
        and ?s0.0 = "logging INFO (WaitingForVideo (JStr (ascii ''video_1'')) (poll_interval demo_config))
                   initial_state"
        and env = "(demo_env [] [])\<lparr>transport := status_transport [] (JStr (ascii ''processing''))\<rparr>"]
  by (simp add: demo_defs polled_status_def then_e_def is_done_def is_failed_def calls_def
        logging_def emit_def ascii_def nth_Cons' less_Suc_eq_0_disj status_query_def)

section \<open>The scene builder\<close>

text \<open>
  Claim C5. For \<open>n\<close> narrations and \<open>m\<close> slide assets the builder makes exactly \<open>n\<close>
  scenes; scene \<open>i\<close> has the fixed avatar, scale and offset, the voice with narration
  \<open>i\<close> and the configured voice id, and as background the image of asset \<open>i\<close> when
  \<open>i < m\<close>, the white colour otherwise.
\<close>

theorem build_scenes_backgrounds:
  "length (build_scenes cfg asset_ids notes) = length notes \<and>
   (\<forall>i < length notes.
      build_scenes cfg asset_ids notes ! i =
        \<lparr>character = TalkingPhoto (avatar_id cfg) (33 / 100) (42 / 100, 42 / 100),
         voice = TextVoice (notes ! i) (config_voice_id cfg),
         background = (if i < length asset_ids then ImageBackground (asset_ids ! i)
                       else ColorBackground (ascii ''#FFFFFF''))\<rparr>)"
  by (simp add: build_scenes_def build_scene_def nth_enumerate_eq)

theorem build_scenes_backgrounds_witness:
  "build_scenes demo_config [JStr (ascii ''asset_1''), JStr (ascii ''asset_2'')]
     [ascii ''one'', ascii ''two'', ascii ''three''] =
   [\<lparr>character = TalkingPhoto (Some (ascii ''avatar'')) (33 / 100) (42 / 100, 42 / 100),
     voice = TextVoice (ascii ''one'') (Some (ascii ''voice'')),
     background = ImageBackground (JStr (ascii ''asset_1''))\<rparr>,
    \<lparr>character = TalkingPhoto (Some (ascii ''avatar'')) (33 / 100) (42 / 100, 42 / 100),
     voice = TextVoice (ascii ''two'') (Some (ascii ''voice'')),
     background = ImageBackground (JStr (ascii ''asset_2''))\<rparr>,
    \<lparr>character = TalkingPhoto (Some (ascii ''avatar'')) (33 / 100) (42 / 100, 42 / 100),
     voice = TextVoice (ascii ''three'') (Some (ascii ''voice'')),
     background = ColorBackground (ascii ''#FFFFFF'')\<rparr>]"
  using build_scenes_backgrounds
      [of demo_config "[JStr (ascii ''asset_1''), JStr (ascii ''asset_2'')]"
          "[ascii ''one'', ascii ''two'', ascii ''three'']"]
  by (simp add: build_scenes_def build_scene_def demo_config_def default_config_def
        enumerate_eq_zip upt_rec)

section \<open>Speaker notes\<close>

lemma notes_loop_acc:
  "notes_loop env pairs acc s = (acc @ fst (notes_loop env pairs [] s), snd (notes_loop env pairs [] s))"
proof (induction pairs arbitrary: acc s)
  case Nil
  show ?case by simp
next
  case (Cons p pairs)
  obtain idx t where p: "p = (idx, t)" by (cases p)
  obtain nt s1 where sn: "speaker_note env idx t s = (nt, s1)"
    by (cases "speaker_note env idx t s")
  show ?case
    using Cons.IH [of "acc @ [nt]" s1] Cons.IH [of "[nt]" s1]
    by (simp add: p sn)
qed

lemma notes_loop_Cons:
  "notes_loop env ((idx, text) # rest) [] s =
     (fst (speaker_note env idx text s) # fst (notes_loop env rest [] (snd (speaker_note env idx text s))),
      snd (notes_loop env rest [] (snd (speaker_note env idx text s))))"
  by (cases "speaker_note env idx text s") (simp add: notes_loop_acc [of _ _ "[_]"])

lemma enumerate_Cons: "enumerate k (x # xs) = (k, x) # enumerate (Suc k) xs"
  by simp

lemma notes_loop_length:
  "length (fst (notes_loop env (enumerate k texts) [] s)) = length texts"
  by (induction texts arbitrary: k s) (simp_all add: notes_loop_Cons del: notes_loop.simps(2))

lemma calls_speaker_note:
  "calls is_chat (snd (speaker_note env idx text s)) =
     calls is_chat s + (if strip text \<noteq> [] then 1 else 0)"
  by (simp add: speaker_note_def Let_def logging_def split: sum.splits)

lemma notes_loop_calls:
  "calls is_chat (snd (notes_loop env (enumerate k texts) [] s)) =
     calls is_chat s + length (filter (\<lambda>t. strip t \<noteq> []) texts)"
  by (induction texts arbitrary: k s)
    (simp_all add: notes_loop_Cons calls_speaker_note del: notes_loop.simps(2))

lemma notes_loop_nth:
  "i < length texts \<Longrightarrow>
     \<exists>si. calls is_chat si = calls is_chat s + length (filter (\<lambda>t. strip t \<noteq> []) (take i texts)) \<and>
          fst (notes_loop env (enumerate k texts) [] s) ! i = fst (speaker_note env (k + i) (texts ! i) si)"
proof (induction texts arbitrary: k s i)
  case Nil
  then show ?case by simp
next
  case (Cons t texts)
  show ?case
  proof (cases i)
    case 0
    then show ?thesis
      by (auto simp: notes_loop_Cons simp del: notes_loop.simps(2) intro: exI [of _ s])
  next
    case (Suc i')
    with Cons.prems have "i' < length texts" by simp
    from Cons.IH [OF this, of "snd (speaker_note env k t s)" "Suc k"]
    show ?thesis
      by (auto simp: Suc notes_loop_Cons calls_speaker_note simp del: notes_loop.simps(2))
  qed
qed

lemma strip_empty_iff: "strip t = [] \<longleftrightarrow> (\<forall>c \<in> set t. isspace c)"
proof
  assume "strip t = []"
  then have all: "\<forall>x \<in> set (dropWhile isspace t). isspace x"
    by (simp add: strip_def dropWhile_eq_Nil_conv)
  have "dropWhile isspace t = []"
  proof (rule ccontr)
    assume ne: "dropWhile isspace t \<noteq> []"
    then have "\<not> isspace (hd (dropWhile isspace t))" by (rule hd_dropWhile)
    moreover from ne have "hd (dropWhile isspace t) \<in> set (dropWhile isspace t)" by simp
    ultimately show False using all by blast
  qed
  then show "\<forall>c \<in> set t. isspace c" by (simp add: dropWhile_eq_Nil_conv)
next
  assume "\<forall>c \<in> set t. isspace c"
  then show "strip t = []"
    by (auto simp: strip_def dropWhile_eq_Nil_conv dest: set_dropWhileD)
qed

lemma speaker_note_blank: "strip t = [] \<Longrightarrow> speaker_note env idx t s = (placeholder_note idx, s)"
  by (simp add: speaker_note_def)

lemma speaker_note_failed:
  assumes "strip t \<noteq> []"
    and "then_e (chat_completions_create env (calls is_chat s) (notes_request t)) first_content = Inl e"
  shows "speaker_note env idx t s =
           (fallback_note idx t,
            logging ERROR (NoteFailed idx e) (emit (ChatCompletion (notes_request t)) s))"
  using assms by (simp add: speaker_note_def)

text \<open>
  Claim C6. Narration generation returns one note per slide text, in the same order:
  note \<open>i\<close> is what the loop body computes for text \<open>i\<close> at position \<open>i + 1\<close> (with
  as many language-model calls before it as there are non-blank texts before \<open>i\<close>).
  When the remote generation fails for an item (the call raises, or its answer has no
  usable first choice), the note is the fallback: the prefix with the position, at most
  50 characters of the slide text, and the dots; the batch goes on.
\<close>

theorem generate_speaker_notes_same_length:
  "length (fst (generate_speaker_notes env texts s)) = length texts
   \<and> (\<forall>i < length texts. \<exists>si.
         calls is_chat si =
           calls is_chat s + length (filter (\<lambda>x. strip x \<noteq> []) (take i texts)) \<and>
         fst (generate_speaker_notes env texts s) ! i =
           fst (speaker_note env (Suc i) (texts ! i) si))
   \<and> (strip t \<noteq> [] \<and>
       then_e (chat_completions_create env (calls is_chat si) (notes_request t))
         first_content = Inl e \<longrightarrow>
         speaker_note env idx t si =
           (fallback_prefix idx @ take 50 t @ ascii ''...'',
            logging ERROR (NoteFailed idx e) (emit (ChatCompletion (notes_request t)) si))
         \<and> length (take 50 t) \<le> 50)"
proof (intro conjI allI impI)
  show "length (fst (generate_speaker_notes env texts s)) = length texts"
    by (simp add: generate_speaker_notes_def notes_loop_length)
next
  fix i assume "i < length texts"
  from notes_loop_nth [OF this, of "logging INFO (GeneratingNotes (length texts)) s" env 1]
  show "\<exists>si. calls is_chat si =
           calls is_chat s + length (filter (\<lambda>x. strip x \<noteq> []) (take i texts)) \<and>
         fst (generate_speaker_notes env texts s) ! i =
           fst (speaker_note env (Suc i) (texts ! i) si)"
    by (simp add: generate_speaker_notes_def logging_def)
next
  assume "strip t \<noteq> [] \<and>
       then_e (chat_completions_create env (calls is_chat si) (notes_request t))
         first_content = Inl e"
  then show "speaker_note env idx t si =
           (fallback_prefix idx @ take 50 t @ ascii ''...'',
            logging ERROR (NoteFailed idx e) (emit (ChatCompletion (notes_request t)) si))"
    by (simp add: speaker_note_failed fallback_note_def)
next
  show "length (take 50 t) \<le> 50" by simp
qed

theorem generate_speaker_notes_same_length_witness:
  "fst (generate_speaker_notes ((demo_env [] [])\<lparr>chat_completions_create := flaky_chat [0]\<rparr>)
         [ascii ''Intro'', ascii ''  '', ascii ''Body''] initial_state) =
     [fallback_prefix 1 @ ascii ''Intro'' @ ascii ''...'', placeholder_note 2,
      user_prompt (ascii ''Body'')]
   \<and> strip (ascii ''Intro'') \<noteq> []
   \<and> then_e (chat_completions_create
               ((demo_env [] [])\<lparr>chat_completions_create := flaky_chat [0]\<rparr>)
               (calls is_chat (logging INFO (GeneratingNotes 3) initial_state))
               (notes_request (ascii ''Intro'')))
        first_content = Inl (LibraryError (ascii ''rate limit''))"
  using generate_speaker_notes_same_length
     [where env = "(demo_env [] [])\<lparr>chat_completions_create := flaky_chat [0]\<rparr>"
        and texts = "[ascii ''Intro'', ascii ''  '', ascii ''Body'']" and s = initial_state
        and t = "ascii ''Intro''" and si = "logging INFO (GeneratingNotes 3) initial_state"
        and idx = 1 and e = "LibraryError (ascii ''rate limit'')"]
  by (simp add: run_defs demo_defs fallback_note_def numeral_2_eq_2)

lemma str_nat_nonempty: "str_nat n \<noteq> []"
  by (subst str_nat.simps) simp

lemma str_nat_digits: "\<forall>c \<in> set (str_nat n). 48 \<le> c \<and> c \<le> 57"
proof (induction n rule: str_nat.induct)
  case (1 n)
  show ?case
  proof (cases "n < 10")
    case True
    then show ?thesis by (subst str_nat.simps) simp
  next
    case False
    with 1 have "\<forall>c \<in> set (str_nat (n div 10)). 48 \<le> c \<and> c \<le> 57" by simp
    moreover have "n mod 10 \<le> 9" by simp
    ultimately show ?thesis using False by (subst str_nat.simps) auto
  qed
qed

lemma str_nat_value: "foldl (\<lambda>a c. 10 * a + (c - 48)) 0 (str_nat n) = n"
proof (induction n rule: str_nat.induct)
  case (1 n)
  show ?case
  proof (cases "n < 10")
    case True
    then show ?thesis by (subst str_nat.simps) simp
  next
    case False
    with 1 have "foldl (\<lambda>a c. 10 * a + (c - 48)) 0 (str_nat (n div 10)) = n div 10" by simp
    with False show ?thesis by (subst str_nat.simps) simp
  qed
qed

lemma str_nat_no_leading_zero: "n \<noteq> 0 \<Longrightarrow> hd (str_nat n) \<noteq> 48"
proof (induction n rule: str_nat.induct)
  case (1 n)
  show ?case
  proof (cases "n < 10")
    case True
    with "1.prems" show ?thesis by (subst str_nat.simps) simp
  next
    case False
    then have "n div 10 \<noteq> 0" by simp
    with 1 False have "hd (str_nat (n div 10)) \<noteq> 48" by simp
    with False show ?thesis
      by (subst str_nat.simps) (simp add: str_nat_nonempty)
  qed
qed

lemma placeholder_note_literal:
  "placeholder_note idx =
     [36825, 26159, 31532] @ str_nat idx @
       [24352, 24187, 28783, 29255, 65292, 20027, 35201, 23637, 31034, 22270, 29255, 20869,
            23481, 12290]"
  by (simp add: placeholder_note_def)

text \<open>
  Claim C7. A slide text is blank exactly when it consists of whitespace only. For a
  blank text at position \<open>idx\<close> the loop body gives the placeholder of line 197, the
  fixed words around the decimal numeral of \<open>idx\<close> (digits only, no leading zero, of
  value \<open>idx\<close>), and leaves the state as it is: no language-model call, nothing logged.
  In a batch the blank text at index \<open>i\<close> gets the placeholder for position \<open>i + 1\<close>,
  and the language model is called once per non-blank text, never for a blank one.
\<close>

theorem blank_slide_placeholder:
  "(strip t = [] \<longleftrightarrow> (\<forall>c \<in> set t. isspace c))
   \<and> (strip t = [] \<longrightarrow>
         speaker_note env idx t s =
           ([36825, 26159, 31532] @ str_nat idx @
              [24352, 24187, 28783, 29255, 65292, 20027, 35201, 23637, 31034, 22270, 29255, 20869,
            23481, 12290], s))
   \<and> (\<forall>i < length texts. strip (texts ! i) = [] \<longrightarrow>
         fst (generate_speaker_notes env texts s) ! i =
           [36825, 26159, 31532] @ str_nat (Suc i) @
             [24352, 24187, 28783, 29255, 65292, 20027, 35201, 23637, 31034, 22270, 29255, 20869,
            23481, 12290])
   \<and> calls is_chat (snd (generate_speaker_notes env texts s)) =
        calls is_chat s + length (filter (\<lambda>x. strip x \<noteq> []) texts)
   \<and> (\<forall>c \<in> set (str_nat idx). 48 \<le> c \<and> c \<le> 57)
   \<and> foldl (\<lambda>a c. 10 * a + (c - 48)) 0 (str_nat idx) = idx
   \<and> (idx \<noteq> 0 \<longrightarrow> hd (str_nat idx) \<noteq> 48)"
proof (intro conjI allI impI)
  show "strip t = [] \<longleftrightarrow> (\<forall>c \<in> set t. isspace c)" by (rule strip_empty_iff)
next
  assume "strip t = []"
  then show "speaker_note env idx t s =
           ([36825, 26159, 31532] @ str_nat idx @
              [24352, 24187, 28783, 29255, 65292, 20027, 35201, 23637, 31034, 22270, 29255, 20869,
            23481, 12290], s)"
    by (simp add: speaker_note_blank placeholder_note_literal)
next
  fix i assume i: "i < length texts" and blank: "strip (texts ! i) = []"
  from notes_loop_nth [OF i, of "logging INFO (GeneratingNotes (length texts)) s" env 1]
  obtain si where "fst (generate_speaker_notes env texts s) ! i =
           fst (speaker_note env (Suc i) (texts ! i) si)"
    by (auto simp: generate_speaker_notes_def)
  then show "fst (generate_speaker_notes env texts s) ! i =
           [36825, 26159, 31532] @ str_nat (Suc i) @
             [24352, 24187, 28783, 29255, 65292, 20027, 35201, 23637, 31034, 22270, 29255, 20869,
            23481, 12290]"
    by (simp add: speaker_note_blank [OF blank] placeholder_note_literal)
next
  show "calls is_chat (snd (generate_speaker_notes env texts s)) =
        calls is_chat s + length (filter (\<lambda>x. strip x \<noteq> []) texts)"
    by (simp add: generate_speaker_notes_def notes_loop_calls logging_def)
next
  show "\<forall>c \<in> set (str_nat idx). 48 \<le> c \<and> c \<le> 57" by (rule str_nat_digits)
  show "foldl (\<lambda>a c. 10 * a + (c - 48)) 0 (str_nat idx) = idx" by (rule str_nat_value)
next
  assume "idx \<noteq> 0"
  then show "hd (str_nat idx) \<noteq> 48" by (rule str_nat_no_leading_zero)
qed

theorem blank_slide_placeholder_witness:
  "generate_speaker_notes ((demo_env [] [])\<lparr>chat_completions_create := flaky_chat [0, 1, 2]\<rparr>)
         [ascii '' '', [], [12288, 9, 10]] initial_state =
     ([ [36825, 26159, 31532, 49, 24352, 24187, 28783, 29255, 65292, 20027, 35201, 23637,
        31034, 22270, 29255, 20869, 23481, 12290],
       [36825, 26159, 31532, 50, 24352, 24187, 28783, 29255, 65292, 20027, 35201, 23637,
        31034, 22270, 29255, 20869, 23481, 12290],
       [36825, 26159, 31532, 51, 24352, 24187, 28783, 29255, 65292, 20027, 35201, 23637,
        31034, 22270, 29255, 20869, 23481, 12290] ],
      \<lparr>slide_asset_ids = [], trace = [Log INFO (GeneratingNotes 3)]\<rparr>)
   \<and> strip [12288, 9, 10] = []
   \<and> str_nat 12 = [49, 50]"
  using blank_slide_placeholder
     [where env = "(demo_env [] [])\<lparr>chat_completions_create := flaky_chat [0, 1, 2]\<rparr>"
        and texts = "[ascii '' '', [], [12288, 9, 10]]" and s = initial_state
        and t = "[12288, 9, 10]" and idx = 3]
  by (simp add: run_defs demo_defs placeholder_note_def str_nat.simps)

section \<open>Rasterization of the slides\<close>

lemma slide_failures_append: "slide_failures (xs @ ys) = slide_failures xs @ slide_failures ys"
  by (induction xs rule: slide_failures.induct) simp_all

lemma slide_failures_emit:
  "slide_failures (trace (emit ev s)) = slide_failures (trace s) @ slide_failures [ev]"
  by (simp add: slide_failures_append)

lemma request_attempts_frame:
  "request_attempts env n req attempts s = (r, s1) \<Longrightarrow>
     slide_asset_ids s1 = slide_asset_ids s \<and>
     slide_failures (trace s1) = slide_failures (trace s)"
proof (induction attempts arbitrary: s)
  case Nil
  then show ?case by auto
next
  case (Cons a attempts)
  show ?case
  proof (cases "transport env (calls is_request s) req")
    case (Inr response)
    with Cons.prems show ?thesis
      by (auto simp: do_request_def slide_failures_append)
  next
    case (Inl e)
    show ?thesis
    proof (cases "is_request_exception e \<and> a \<noteq> n - 1")
      case False
      with Inl Cons.prems show ?thesis
        by (auto simp: do_request_def logging_def slide_failures_append Let_def split: if_splits)
    next
      case True
      let ?s2 = "sleep (2 ^ a) (logging WARNING
                   (RequestFailed (http_method req) (url req) (a + 1) e) (emit (Request req) s))"
      from True Inl Cons.prems have "request_attempts env n req attempts ?s2 = (r, s1)"
        by (simp add: do_request_def Let_def)
      from Cons.IH [OF this] show ?thesis
        by (simp add: sleep_def logging_def slide_failures_append)
    qed
  qed
qed

lemma upload_to_heygen_frame:
  "upload_to_heygen env cfg file_bytes file_name s = (r, s1) \<Longrightarrow>
     slide_asset_ids s1 = slide_asset_ids s \<and>
     slide_failures (trace s1) = slide_failures (trace s)"
  by (auto simp: upload_to_heygen_def Let_def request_with_retry_def logging_def
        slide_failures_append
      split: prod.splits sum.splits if_splits dest!: request_attempts_frame)

lemma slide_try_effect:
  assumes "slide_try env cfg pptx_bytes slide_idx s = ((p, r), s1)"
  shows "slide_failures (trace s1) = slide_failures (trace s) \<and>
         slide_asset_ids s1 = slide_asset_ids s @ (case r of Inl e \<Rightarrow> [] | Inr a \<Rightarrow> [a])"
  using assms
  by (auto simp: slide_try_def Let_def slide_failures_append
      split: sum.splits if_splits prod.splits dest!: upload_to_heygen_frame)










section \<open>The conversion\<close>

lemma get_file_bytes_frame: "slide_asset_ids (snd (get_file_bytes env public_id s)) = slide_asset_ids s"
  by (simp add: get_file_bytes_def do_request_def logging_def split: sum.splits)

lemma speaker_note_frame: "slide_asset_ids (snd (speaker_note env idx t s)) = slide_asset_ids s"
  by (simp add: speaker_note_def Let_def logging_def split: sum.splits)

lemma notes_loop_frame:
  "slide_asset_ids (snd (notes_loop env pairs acc s)) = slide_asset_ids s"
proof (induction pairs arbitrary: acc s)
  case Nil
  show ?case by simp
next
  case (Cons p pairs)
  obtain idx t where p: "p = (idx, t)" by (cases p)
  obtain nt s1 where sn: "speaker_note env idx t s = (nt, s1)"
    by (cases "speaker_note env idx t s")
  from speaker_note_frame [of env idx t s] sn have "slide_asset_ids s1 = slide_asset_ids s"
    by simp
  with Cons.IH [of "acc @ [nt]" s1] show ?case by (simp add: p sn)
qed

lemma generate_speaker_notes_frame:
  "generate_speaker_notes env texts s = (notes, s3) \<Longrightarrow>
     slide_asset_ids s3 = slide_asset_ids s \<and> length notes = length texts"
  using notes_loop_frame [of env "enumerate 1 texts" "[]" "logging INFO (GeneratingNotes (length texts)) s"]
    notes_loop_length [of env 1 texts "logging INFO (GeneratingNotes (length texts)) s"]
  by (auto simp: generate_speaker_notes_def logging_def)

lemma cleanup_frame:
  "slide_asset_ids (snd (cleanup env temp_file_path s)) = slide_asset_ids s"
  by (simp add: cleanup_def split: option.splits)

lemma slide_iteration_bound:
  "length (slide_asset_ids (snd (slide_iteration env cfg pptx_bytes slide_idx s)))
     \<le> Suc (length (slide_asset_ids s))"
proof -
  obtain p r s1 where st: "slide_try env cfg pptx_bytes slide_idx s = ((p, r), s1)"
    by (cases "slide_try env cfg pptx_bytes slide_idx s") auto
  from slide_try_effect [OF st] show ?thesis
    by (cases r) (simp_all add: slide_iteration_def st cleanup_frame logging_def)
qed

lemma slides_loop_bound:
  "length (slide_asset_ids (snd (slides_loop env cfg pptx_bytes idxs s)))
     \<le> length (slide_asset_ids s) + length idxs"
proof (induction idxs arbitrary: s)
  case Nil
  show ?case by simp
next
  case (Cons i idxs)
  obtain r s1 where it: "slide_iteration env cfg pptx_bytes i s = (r, s1)"
    by (cases "slide_iteration env cfg pptx_bytes i s")
  from slide_iteration_bound [of env cfg pptx_bytes i s] it
  have b: "length (slide_asset_ids s1) \<le> Suc (length (slide_asset_ids s))" by simp
  show ?case
  proof (cases r)
    case (Inl e)
    with it b show ?thesis by simp
  next
    case (Inr u)
    with it b Cons.IH [of s1] show ?thesis by simp
  qed
qed

lemma pptx_to_heygen_images_bound:
  "length (slide_asset_ids (snd (pptx_to_heygen_images env cfg pptx_bytes slide_count s)))
     \<le> length (slide_asset_ids s) + slide_count"
proof -
  have "length [1..<slide_count + 1] = slide_count" by simp
  with slides_loop_bound [of env cfg pptx_bytes "[1..<slide_count + 1]"
      "logging INFO (ConvertingSlides slide_count) s"]
  show ?thesis
    by (simp add: pptx_to_heygen_images_def logging_def del: upt_Suc length_upt)
qed

text \<open>
  On a converter whose \<^verbatim>\<open>slide_asset_ids\<close> is still empty, the notes that
  \<^verbatim>\<open>convert\<close> generates are as many as the assets it holds when it builds the job.
\<close>

lemma convert_notes_fresh_aligned:
  assumes "slide_asset_ids s = []"
    and "convert_notes env cfg pptx_public_id max_slides s = (Inr speaker_notes, s3)"
  shows "length speaker_notes = length (slide_asset_ids s3)"
proof -
  let ?s0 = "logging INFO (ProcessingPptx pptx_public_id) s"
  obtain fetched s1 where g: "get_file_bytes env pptx_public_id ?s0 = (fetched, s1)"
    by (cases "get_file_bytes env pptx_public_id ?s0")
  from get_file_bytes_frame [of env pptx_public_id ?s0] g assms(1)
  have e1: "slide_asset_ids s1 = []" by (simp add: logging_def)
  from assms(2) g obtain pptx_bytes where f: "fetched = Some pptx_bytes" "pptx_bytes \<noteq> []"
    by (cases fetched) (auto simp: convert_notes_def split: if_splits)
  from assms(2) g f obtain deck where d: "parse_presentation env pptx_bytes = Inr deck" "deck \<noteq> []"
    by (cases "parse_presentation env pptx_bytes") (auto simp: convert_notes_def split: if_splits)
  let ?slides = "limit_slides max_slides deck"
  obtain r s2 where im: "pptx_to_heygen_images env cfg pptx_bytes (length ?slides) s1 = (r, s2)"
    by (cases "pptx_to_heygen_images env cfg pptx_bytes (length ?slides) s1")
  from pptx_to_heygen_images_bound [of env cfg pptx_bytes "length ?slides" s1] im e1
  have b: "length (slide_asset_ids s2) \<le> length ?slides" by simp
  from assms(2) g f d im
  have gen: "generate_speaker_notes env
               (take (length (slide_asset_ids s2)) (map slide_text ?slides)) s2 =
             (speaker_notes, s3)"
    by (cases r; cases "generate_speaker_notes env
               (take (length (slide_asset_ids s2)) (map slide_text ?slides)) s2")
       (auto simp: convert_notes_def Let_def split: if_splits)
  from generate_speaker_notes_frame [OF gen] b show ?thesis by simp
qed

text \<open>
  The structural failures of \<^verbatim>\<open>convert\<close>: no bytes fetched, a deck without slides,
  and, on a converter whose \<^verbatim>\<open>slide_asset_ids\<close> is still empty, a rasterization that
  appended no asset.
\<close>

lemma convert_structural_failures:
  assumes "get_file_bytes env pptx_public_id (logging INFO (ProcessingPptx pptx_public_id) s) =
             (fetched, s1)"
  shows "fetched = None \<or> fetched = Some [] \<Longrightarrow>
           convert env cfg pptx_public_id video_title max_slides s =
             Some (Inl (PptxNotFound pptx_public_id), s1)"
    and "fetched = Some pptx_bytes \<Longrightarrow> pptx_bytes \<noteq> [] \<Longrightarrow>
         parse_presentation env pptx_bytes = Inr [] \<Longrightarrow>
           convert env cfg pptx_public_id video_title max_slides s = Some (Inl NoSlides, s1)"
    and "fetched = Some pptx_bytes \<Longrightarrow> pptx_bytes \<noteq> [] \<Longrightarrow>
         parse_presentation env pptx_bytes = Inr deck \<Longrightarrow> deck \<noteq> [] \<Longrightarrow>
         pptx_to_heygen_images env cfg pptx_bytes (length (limit_slides max_slides deck)) s1 =
           (Inr (), s2) \<Longrightarrow>
         slide_asset_ids s = [] \<Longrightarrow> slide_asset_ids s2 = slide_asset_ids s1 \<Longrightarrow>
           convert env cfg pptx_public_id video_title max_slides s =
             Some (Inl NoSlidesConverted, s2)"
proof -
  show "fetched = None \<or> fetched = Some [] \<Longrightarrow>
           convert env cfg pptx_public_id video_title max_slides s =
             Some (Inl (PptxNotFound pptx_public_id), s1)"
    using assms by (auto simp: convert_def convert_notes_def)
  show "fetched = Some pptx_bytes \<Longrightarrow> pptx_bytes \<noteq> [] \<Longrightarrow>
         parse_presentation env pptx_bytes = Inr [] \<Longrightarrow>
           convert env cfg pptx_public_id video_title max_slides s = Some (Inl NoSlides, s1)"
    using assms by (simp add: convert_def convert_notes_def)
  from get_file_bytes_frame [of env pptx_public_id "logging INFO (ProcessingPptx pptx_public_id) s"]
    assms
  have "slide_asset_ids s1 = slide_asset_ids s" by (simp add: logging_def)
  then show "fetched = Some pptx_bytes \<Longrightarrow> pptx_bytes \<noteq> [] \<Longrightarrow>
         parse_presentation env pptx_bytes = Inr deck \<Longrightarrow> deck \<noteq> [] \<Longrightarrow>
         pptx_to_heygen_images env cfg pptx_bytes (length (limit_slides max_slides deck)) s1 =
           (Inr (), s2) \<Longrightarrow>
         slide_asset_ids s = [] \<Longrightarrow> slide_asset_ids s2 = slide_asset_ids s1 \<Longrightarrow>
           convert env cfg pptx_public_id video_title max_slides s =
             Some (Inl NoSlidesConverted, s2)"
    using assms by (simp add: convert_def convert_notes_def Let_def)
qed

text \<open>
  Claim C2 (fails on the code). \<^verbatim>\<open>convert\<close> is to generate as many notes as there are
  assets in \<^verbatim>\<open>slide_asset_ids\<close> when the job is built. The list is never emptied, so
  on the second call on the same converter it still holds the first call's asset: for
  a deck of one slide the second call builds its job from one note and two assets.
\<close>

theorem convert_reuse_notes_assets_mismatch:
  "(case convert (demo_env [] [intro_slide]) demo_config (ascii ''deck'') None None
          initial_state of
      Some (Inr r1, s1) \<Rightarrow>
        slides_processed r1 = 1 \<and> length (slide_asset_ids s1) = 1 \<and>
        (case convert_notes (demo_env [] [intro_slide]) demo_config (ascii ''deck'')
                None s1 of
           (Inr speaker_notes, s3) \<Rightarrow>
             length speaker_notes = 1 \<and> length (slide_asset_ids s3) = 2
         | (Inl e, s3) \<Rightarrow> False)
    | _ \<Rightarrow> False)"
  by (simp add: run_defs demo_defs poll_loop.simps str_nat.simps upt_rec Let_def)

text \<open>
  Claim C8 (fails on the code). A conversion in which no slide was converted is to fail
  with the no-slides-converted error. The test of line 298 reads the list that earlier
  calls filled: after a first successful call, a second call whose only slide fails to
  rasterize appends nothing, logs the failure, and still returns a result, built on the
  first call's asset.
\<close>

theorem convert_reuse_no_slides_converted:
  "(case convert (outage_env [intro_slide]) demo_config (ascii ''deck'') None None
          initial_state of
      Some (Inr r1, s1) \<Rightarrow>
        slide_failures (trace s1) = [] \<and>
        (case convert (outage_env [intro_slide]) demo_config (ascii ''deck'') None
                None s1 of
           Some (Inr r2, s2) \<Rightarrow>
             slide_asset_ids s2 = slide_asset_ids s1 \<and>
             slide_failures (trace s2) = [(1, LibraryError (ascii ''render''))] \<and>
             slides_processed r2 = 1
         | _ \<Rightarrow> False)
    | _ \<Rightarrow> False)"
  by (simp add: run_defs demo_defs poll_loop.simps str_nat.simps upt_rec Let_def)

text \<open>
  Claim C9 (fails on the code). Two calls of \<^verbatim>\<open>convert\<close> with the same input on the
  same converter, against the same deterministic services, are to report the same
  \<^verbatim>\<open>slides_processed\<close>. For a deck of two slides whose second slide never rasterizes,
  the first call reports 1 and the second reports 2; the titles agree.
\<close>

theorem convert_twice_slides_processed_differ:
  "(case convert (demo_env [2] demo_deck) demo_config (ascii ''deck'') None None initial_state of
      Some (Inr r1, s1) \<Rightarrow>
        slides_processed r1 = 1 \<and>
        (case convert (demo_env [2] demo_deck) demo_config (ascii ''deck'') None None s1 of
           Some (Inr r2, s2) \<Rightarrow> slides_processed r2 = 2 \<and> result_title r2 = result_title r1
         | _ \<Rightarrow> False)
    | _ \<Rightarrow> False)"
  by (simp add: run_defs demo_defs poll_loop.simps str_nat.simps upt_rec Let_def)

text \<open>
  Claim C10. \<^verbatim>\<open>max_slides = 0\<close> limits nothing: the slide list is left whole and
  \<^verbatim>\<open>convert\<close> does exactly what it does without a limit. When the deck is fetched and
  parsed, every slide of the deck is rasterized and narrated from.
\<close>

theorem convert_max_slides_zero:
  "limit_slides (Some 0) slides = slides
   \<and> convert env cfg pptx_public_id video_title (Some 0) s =
       convert env cfg pptx_public_id video_title None s
   \<and> (get_file_bytes env pptx_public_id (logging INFO (ProcessingPptx pptx_public_id) s) =
         (Some pptx_bytes, s1)
       \<and> pptx_bytes \<noteq> [] \<and> parse_presentation env pptx_bytes = Inr deck \<and> deck \<noteq> [] \<longrightarrow>
         convert_notes env cfg pptx_public_id (Some 0) s =
           (case pptx_to_heygen_images env cfg pptx_bytes (length deck) s1 of
              (Inl e, s2) \<Rightarrow> (Inl e, s2)
            | (Inr u, s2) \<Rightarrow>
                if slide_asset_ids s2 = [] then (Inl NoSlidesConverted, s2)
                else (case generate_speaker_notes env
                             (take (length (slide_asset_ids s2)) (map slide_text deck)) s2 of
                        (speaker_notes, s3) \<Rightarrow> (Inr speaker_notes, s3))))"
proof (intro conjI impI)
  have l: "limit_slides (Some 0) xs = limit_slides None xs" for xs :: "slide list"
    by (simp add: limit_slides_def)
  show "limit_slides (Some 0) slides = slides"
    by (simp add: limit_slides_def)
  have "convert_notes env cfg pptx_public_id (Some 0) s =
          convert_notes env cfg pptx_public_id None s"
    unfolding convert_notes_def l by (rule refl)
  then show "convert env cfg pptx_public_id video_title (Some 0) s =
       convert env cfg pptx_public_id video_title None s"
    by (simp only: convert_def)
next
  assume "get_file_bytes env pptx_public_id (logging INFO (ProcessingPptx pptx_public_id) s) =
         (Some pptx_bytes, s1)
       \<and> pptx_bytes \<noteq> [] \<and> parse_presentation env pptx_bytes = Inr deck \<and> deck \<noteq> []"
  then show "convert_notes env cfg pptx_public_id (Some 0) s =
           (case pptx_to_heygen_images env cfg pptx_bytes (length deck) s1 of
              (Inl e, s2) \<Rightarrow> (Inl e, s2)
            | (Inr u, s2) \<Rightarrow>
                if slide_asset_ids s2 = [] then (Inl NoSlidesConverted, s2)
                else (case generate_speaker_notes env
                             (take (length (slide_asset_ids s2)) (map slide_text deck)) s2 of
                        (speaker_notes, s3) \<Rightarrow> (Inr speaker_notes, s3)))"
    by (simp add: convert_notes_def limit_slides_def Let_def)
qed

theorem convert_max_slides_zero_witness:
  "get_file_bytes (demo_env [] demo_deck) (ascii ''deck'')
      (logging INFO (ProcessingPptx (ascii ''deck'')) initial_state) =
     (Some [80, 75],
      \<lparr>slide_asset_ids = [],
        trace = [Log INFO (ProcessingPptx (ascii ''deck'')),
                 Request \<lparr>http_method = ascii ''get'',
                          url = Url (ascii ''https://res/'' @ ascii ''deck''), timeout = 60,
                          kwargs = \<lparr>headers = [], body = NoBody\<rparr>\<rparr>]\<rparr>)
   \<and> parse_presentation (demo_env [] demo_deck) [80, 75] = Inr demo_deck \<and> demo_deck \<noteq> []
   \<and> (case convert (demo_env [] demo_deck) demo_config (ascii ''deck'') None (Some 0)
          initial_state of
      Some (Inr r, s') \<Rightarrow> slides_processed r = 2 \<and> length (slide_asset_ids s') = 2
    | _ \<Rightarrow> False)"
  using convert_max_slides_zero
     [of demo_deck "demo_env [] demo_deck" demo_config "ascii ''deck''" None initial_state
         "[80, 75]"
         "\<lparr>slide_asset_ids = [],
           trace = [Log INFO (ProcessingPptx (ascii ''deck'')),
                    Request \<lparr>http_method = ascii ''get'',
                             url = Url (ascii ''https://res/'' @ ascii ''deck''), timeout = 60,
                             kwargs = \<lparr>headers = [], body = NoBody\<rparr>\<rparr>]\<rparr>"
         demo_deck]
  by (simp add: run_defs demo_defs poll_loop.simps str_nat.simps upt_rec Let_def)

end
